theory Spec2Isabelle
  imports Main "HOL-Library.Sublist"
begin

section \<open>Go strings and the library functions the client calls\<close>

text \<open>
  A Go string is a byte sequence, so it is a \<^typ>\<open>string\<close> here (a list of 8-bit
  characters), and \<open>len\<close>, slicing, \<open>HasPrefix\<close> and \<open>HasSuffix\<close> count bytes.
  \<open>strings.TrimSpace\<close> and \<open>strings.Fields\<close> remove the runes with Unicode's White_Space
  property; these are listed below by their UTF-8 encodings.
  \<open>strings.ToUpper\<close> and \<open>strings.ToLower\<close> map every rune with Unicode's simple case
  mapping; what they do outside ASCII is described at their definitions below.
\<close>

definition bs :: char where "bs = CHR 0x5C"
definition nl :: char where "nl = CHR 0x0A"
definition tab :: char where "tab = CHR 0x09"
definition sq :: char where "sq = CHR 0x27"
definition dq :: char where "dq = CHR 0x22"

definition HasPrefix :: "string \<Rightarrow> string \<Rightarrow> bool" where
  "HasPrefix s p = (length p \<le> length s \<and> take (length p) s = p)"

definition HasSuffix :: "string \<Rightarrow> string \<Rightarrow> bool" where
  "HasSuffix s p = (length p \<le> length s \<and> drop (length s - length p) s = p)"

definition TrimSuffix :: "string \<Rightarrow> string \<Rightarrow> string" where
  "TrimSuffix s p = (if HasSuffix s p then take (length s - length p) s else s)"

definition spaceSeqs :: "string list" where
  "spaceSeqs =
    [[CHR 0x09], [CHR 0x0A], [CHR 0x0B], [CHR 0x0C], [CHR 0x0D], [CHR 0x20],
     [CHR 0xC2, CHR 0x85], [CHR 0xC2, CHR 0xA0],
     [CHR 0xE1, CHR 0x9A, CHR 0x80],
     [CHR 0xE2, CHR 0x80, CHR 0x80], [CHR 0xE2, CHR 0x80, CHR 0x81],
     [CHR 0xE2, CHR 0x80, CHR 0x82], [CHR 0xE2, CHR 0x80, CHR 0x83],
     [CHR 0xE2, CHR 0x80, CHR 0x84], [CHR 0xE2, CHR 0x80, CHR 0x85],
     [CHR 0xE2, CHR 0x80, CHR 0x86], [CHR 0xE2, CHR 0x80, CHR 0x87],
     [CHR 0xE2, CHR 0x80, CHR 0x88], [CHR 0xE2, CHR 0x80, CHR 0x89],
     [CHR 0xE2, CHR 0x80, CHR 0x8A],
     [CHR 0xE2, CHR 0x80, CHR 0xA8], [CHR 0xE2, CHR 0x80, CHR 0xA9],
     [CHR 0xE2, CHR 0x80, CHR 0xAF], [CHR 0xE2, CHR 0x81, CHR 0x9F],
     [CHR 0xE3, CHR 0x80, CHR 0x80]]"

text \<open>Byte length of the white-space rune a string starts (ends) with, 0 when there is none.\<close>

definition spaceAtStart :: "string \<Rightarrow> nat" where
  "spaceAtStart s = (case List.find (HasPrefix s) spaceSeqs of None \<Rightarrow> 0 | Some q \<Rightarrow> length q)"

definition spaceAtEnd :: "string \<Rightarrow> nat" where
  "spaceAtEnd s = (case List.find (HasSuffix s) spaceSeqs of None \<Rightarrow> 0 | Some q \<Rightarrow> length q)"

lemma spaceSeqs_nonempty: "q \<in> set spaceSeqs \<Longrightarrow> 0 < length q"
  by (auto simp: spaceSeqs_def)

lemma spaceAtStart_le: "spaceAtStart s \<le> length s"
  by (auto simp: spaceAtStart_def HasPrefix_def split: option.splits dest!: find_Some_iff[THEN iffD1])

lemma spaceAtEnd_le: "spaceAtEnd s \<le> length s"
  by (auto simp: spaceAtEnd_def HasSuffix_def split: option.splits dest!: find_Some_iff[THEN iffD1])

function TrimLeftSpace :: "string \<Rightarrow> string" where
  "TrimLeftSpace s = (let n = spaceAtStart s in if n = 0 then s else TrimLeftSpace (drop n s))"
  by pat_completeness auto
termination
proof (relation "measure length", goal_cases)
  case 1
  show ?case by simp
next
  case (2 s n)
  then have "0 < spaceAtStart s" by simp
  moreover have "spaceAtStart s \<le> length s" by (rule spaceAtStart_le)
  ultimately show ?case using 2 by simp
qed

function TrimRightSpace :: "string \<Rightarrow> string" where
  "TrimRightSpace s =
     (let n = spaceAtEnd s in if n = 0 then s else TrimRightSpace (take (length s - n) s))"
  by pat_completeness auto
termination
proof (relation "measure length", goal_cases)
  case 1
  show ?case by simp
next
  case (2 s n)
  then have "0 < spaceAtEnd s" by simp
  moreover have "spaceAtEnd s \<le> length s" by (rule spaceAtEnd_le)
  ultimately show ?case using 2 by simp
qed

declare TrimLeftSpace.simps [simp del] TrimRightSpace.simps [simp del]

definition TrimSpace :: "string \<Rightarrow> string" where
  "TrimSpace s = TrimRightSpace (TrimLeftSpace s)"

text \<open>\<open>strings.Fields\<close>: the maximal runs of bytes between white-space runes.\<close>

function fieldsFrom :: "string \<Rightarrow> string \<Rightarrow> string list" where
  "fieldsFrom cur [] = (if cur = [] then [] else [cur])"
| "fieldsFrom cur (c # s) =
     (let n = spaceAtStart (c # s) in
      if n = 0 then fieldsFrom (cur @ [c]) s
      else (if cur = [] then [] else [cur]) @ fieldsFrom [] (drop n (c # s)))"
  by pat_completeness auto
termination
proof (relation "measure (\<lambda>(cur, s). length s)", goal_cases)
  case 1
  show ?case by simp
next
  case (2 cur c s n)
  show ?case by simp
next
  case (3 cur c s n)
  then have "0 < spaceAtStart (c # s)" by simp
  then show ?case using 3 by simp
qed

declare fieldsFrom.simps [simp del]

definition Fields :: "string \<Rightarrow> string list" where
  "Fields s = fieldsFrom [] s"

definition toUpperC :: "char \<Rightarrow> char" where
  "toUpperC c = (let n = of_char c :: nat in if 97 \<le> n \<and> n \<le> 122 then char_of (n - 32) else c)"

definition toLowerC :: "char \<Rightarrow> char" where
  "toLowerC c = (let n = of_char c :: nat in if 65 \<le> n \<and> n \<le> 90 then char_of (n + 32) else c)"

text \<open>
  \<open>strings.ToUpper\<close> and \<open>strings.ToLower\<close>. The ASCII letters are mapped as Go maps
  them. Outside ASCII, two runes have an ASCII letter as their upper case, U+0131
  (dotless i, bytes C4 B1) with I and U+017F (long s, bytes C5 BF) with S, and two have
  an ASCII letter as their lower case, U+0130 (capital I with dot, bytes C4 B0) with i
  and U+212A (Kelvin sign, bytes E2 84 AA) with k; these are mapped as Go maps them.
  Every other byte from 0x80 on is left as it is, where Go writes the mapped rune, or
  U+FFFD for a byte that is not UTF-8: so the result has the ASCII bytes of Go's result,
  in the same order and between the same runes, but not its other bytes. The client
  only compares these results with ASCII constants, by equality or as a prefix.
\<close>

fun ToUpper :: "string \<Rightarrow> string" where
  "ToUpper [] = []"
| "ToUpper (c # s) =
     (if c = CHR 0xC4 \<and> take 1 s = [CHR 0xB1] then CHR ''I'' # ToUpper (drop 1 s)
      else if c = CHR 0xC5 \<and> take 1 s = [CHR 0xBF] then CHR ''S'' # ToUpper (drop 1 s)
      else toUpperC c # ToUpper s)"

fun ToLower :: "string \<Rightarrow> string" where
  "ToLower [] = []"
| "ToLower (c # s) =
     (if c = CHR 0xC4 \<and> take 1 s = [CHR 0xB0] then CHR ''i'' # ToLower (drop 1 s)
      else if c = CHR 0xE2 \<and> take 2 s = [CHR 0x84, CHR 0xAA] then CHR ''k'' # ToLower (drop 2 s)
      else toLowerC c # ToLower s)"

declare ToUpper.simps [simp del] ToLower.simps [simp del]

fun Join :: "string list \<Rightarrow> string \<Rightarrow> string" where
  "Join [] sep = []"
| "Join [x] sep = x"
| "Join (x # y # xs) sep = x @ sep @ Join (y # xs) sep"

text \<open>Facts that let the simplifier run the library functions on literals.\<close>

lemmas str_eval =
  HasPrefix_def HasSuffix_def TrimSuffix_def spaceAtStart_def spaceAtEnd_def spaceSeqs_def
  TrimLeftSpace.simps TrimRightSpace.simps TrimSpace_def fieldsFrom.simps Fields_def
  toUpperC_def toLowerC_def ToUpper.simps ToLower.simps char_of_def bit_Suc_0_iff
  bs_def nl_def tab_def sq_def dq_def

section \<open>The line source\<close>

text \<open>
  \<open>Reader.ReadLine\<close> returns a line or an error. The session's input is the list of
  the results of the reads still to come; a source that has nothing left reports
  \<open>io.EOF\<close> at every further read.
\<close>

datatype read_error = EOF | ReadFailed

type_synonym line_source = "(read_error + string) list"

section \<open>readMultiLine\<close>

text \<open>
  The loop of \<open>readMultiLine\<close>, on the database name (for the continuation prompt),
  the line source, the buffer \<open>lines\<close> and the reader's prompt. It returns the
  statement unit, the line source that is left and the prompt.
\<close>

fun readLoop :: "string \<Rightarrow> line_source \<Rightarrow> string list \<Rightarrow> string
    \<Rightarrow> string \<times> line_source \<times> string" where
  "readLoop dbn [] lines p = ([], [], p)"
| "readLoop dbn (Inl e # rest) lines p = ([], rest, p)"
| "readLoop dbn (Inr line # rest) lines p =
     (let trimmed = TrimSpace line in
      if trimmed = [] \<and> lines = [] then ([], rest, p)
      else if lines = [] \<and> HasPrefix trimmed [bs] then (trimmed, rest, p)
      else if lines = [] \<and>
              (let cmdLower = ToLower trimmed in
               cmdLower = ''exit'' \<or> cmdLower = ''quit'' \<or> cmdLower = ''help'')
        then (trimmed, rest, p)
      else if lines \<noteq> [] \<and> HasPrefix trimmed [bs] then readLoop dbn rest (lines @ [line]) p
      else if HasSuffix trimmed '';'' then (Join (lines @ [line]) [nl], rest, p)
      else readLoop dbn rest (lines @ [line]) (dbn @ ''-> ''))"

section \<open>Formatting\<close>

text \<open>\<open>%d\<close> of an integer.\<close>

fun natDigits :: "nat \<Rightarrow> string" where
  "natDigits n =
     (if n < 10 then [char_of (48 + n)] else natDigits (n div 10) @ [char_of (48 + n mod 10)])"

declare natDigits.simps [simp del]

definition itoa :: "int \<Rightarrow> string" where
  "itoa i = (if i < 0 then ''-'' @ natDigits (nat (- i)) else natDigits (nat i))"

text \<open>
  \<open>%-*s\<close>: the text, then blanks up to the width. \<open>fmt\<close> measures the text with
  \<open>utf8.RuneCountInString\<close>: a well-formed UTF-8 sequence counts as one rune, and so does
  every byte that does not start one. \<open>runeLen\<close> is the number of bytes the first rune of a
  text takes in that count: the lead byte gives the size (C2..DF two, E0..EF three, F0..F4
  four bytes) and the range of the second byte (narrower after E0, ED, F0 and F4); a
  sequence that is cut short or has a byte out of range counts its first byte alone.
\<close>

definition contByte :: "char \<Rightarrow> bool" where
  "contByte c = (128 \<le> (of_char c :: nat) \<and> (of_char c :: nat) < 192)"

definition runeLen :: "string \<Rightarrow> nat" where
  "runeLen s =
     (case s of
        [] \<Rightarrow> 0
      | c # t \<Rightarrow>
          (let b = of_char c :: nat
           in if b < 194 \<or> 244 < b then 1
              else (let size = (if b < 224 then 2 else if b < 240 then 3 else 4 :: nat);
                        lo = (if b = 224 then 160 else if b = 240 then 144 else 128 :: nat);
                        hi = (if b = 237 then 159 else if b = 244 then 143 else 191 :: nat)
                    in if length s < size then 1
                       else if of_char (t ! 0) < lo \<or> hi < of_char (t ! 0) then 1
                       else if size = 2 then 2
                       else if \<not> contByte (t ! 1) then 1
                       else if size = 3 then 3
                       else if \<not> contByte (t ! 2) then 1
                       else 4)))"

lemma runeLen_pos: "s \<noteq> [] \<Longrightarrow> 0 < runeLen s"
  by (cases s) (simp_all add: runeLen_def Let_def)

function runeCount :: "string \<Rightarrow> nat" where
  "runeCount s = (if s = [] then 0 else Suc (runeCount (drop (runeLen s) s)))"
  by pat_completeness auto
termination
proof (relation "measure length", goal_cases)
  case 1
  show ?case by simp
next
  case (2 s)
  then show ?case using runeLen_pos [of s] by simp
qed

declare runeCount.simps [simp del]

definition padRight :: "nat \<Rightarrow> string \<Rightarrow> string" where
  "padRight w s = s @ replicate (w - runeCount s) (CHR '' '')"

text \<open>
  A scanned column value, by the dynamic type the driver delivers. A time carries the
  fields of its date and clock and, last, the text that \<open>Time.String\<close> prints after the
  seconds (fraction, offset and zone); a float carries its \<open>%v\<close> rendering.
\<close>

datatype sqlval =
    VNil
  | VBytes string
  | VTime int nat nat nat nat nat string
  | VBool bool
  | VInt int
  | VFloat string
  | VString string

definition pad2 :: "nat \<Rightarrow> string" where
  "pad2 n = (if n < 10 then ''0'' @ natDigits n else natDigits n)"

definition year4 :: "int \<Rightarrow> string" where
  "year4 y =
     (let d = natDigits (nat \<bar>y\<bar>); z = replicate (4 - length d) (CHR ''0'') @ d
      in if y < 0 then ''-'' @ z else z)"

definition formatTime :: "int \<Rightarrow> nat \<Rightarrow> nat \<Rightarrow> nat \<Rightarrow> nat \<Rightarrow> nat \<Rightarrow> string" where
  "formatTime y mo d h mi s =
     year4 y @ ''-'' @ pad2 mo @ ''-'' @ pad2 d @ '' '' @ pad2 h @ '':'' @ pad2 mi @ '':'' @ pad2 s"

text \<open>The value formatting shared by \<open>displayTable\<close> and \<open>displayExpanded\<close>.\<close>

fun formatValue :: "sqlval \<Rightarrow> string" where
  "formatValue VNil = []"
| "formatValue (VBytes b) = b"
| "formatValue (VTime y mo d h mi s after) = formatTime y mo d h mi s"
| "formatValue (VBool b) = (if b then ''t'' else ''f'')"
| "formatValue (VInt i) = itoa i"
| "formatValue (VFloat f) = f"
| "formatValue (VString s) = s"

text \<open>\<open>describeTable\<close> prints every non-nil value with \<open>%v\<close>.\<close>

fun sprintV :: "sqlval \<Rightarrow> string" where
  "sprintV VNil = []"
| "sprintV (VBytes b) = ''['' @ Join (map (\<lambda>c. natDigits (of_char c)) b) '' '' @ '']''"
| "sprintV (VTime y mo d h mi s after) = formatTime y mo d h mi s @ after"
| "sprintV (VBool b) = (if b then ''true'' else ''false'')"
| "sprintV (VInt i) = itoa i"
| "sprintV (VFloat f) = f"
| "sprintV (VString s) = s"

lemmas fmt_eval =
  natDigits.simps itoa_def pad2_def year4_def formatTime_def


section \<open>Configuration, session and backend\<close>

text \<open>Durations are in nanoseconds, as \<open>time.Duration\<close> is.\<close>

record Config =
  Host :: string
  Port :: int
  Username :: string
  Password :: string
  Database :: string
  SSLMode :: string
  ConnectTimeout :: int
  StatementTimeout :: int
  MaxOpenConns :: int
  MaxIdleConns :: int
  ConnMaxLifetime :: int
  ApplicationName :: string
  SearchPath :: string
  TimeZone :: string
  CustomParams :: string

type_synonym handle = nat

text \<open>
  The calls the client makes on \<open>database/sql\<close>, in order. \<open>EvExec\<close> and \<open>EvQuery\<close>
  carry the timeout of their context in seconds.
\<close>

datatype event =
    EvOpen string
  | EvPing handle
  | EvClose handle
  | EvExec handle nat string
  | EvQuery handle nat string

text \<open>
  What the world outside answers, as functions of the calls made so far: the backend's
  replies (an error text on the left) and the \<open>%.3f\<close> rendering of the elapsed
  milliseconds that a timing line shows.
\<close>

record env =
  open_reply :: "event list \<Rightarrow> string \<Rightarrow> string + handle"
  ping_reply :: "event list \<Rightarrow> handle \<Rightarrow> string option"
  exec_reply :: "event list \<Rightarrow> handle \<Rightarrow> nat \<Rightarrow> string \<Rightarrow> string + int"
  query_reply :: "event list \<Rightarrow> handle \<Rightarrow> nat \<Rightarrow> string \<Rightarrow> string + (string list \<times> sqlval list list)"
  elapsed :: "event list \<Rightarrow> string"

text \<open>
  The \<open>CLI\<close> struct. \<open>db\<close> is \<open>None\<close> for the nil pointer. \<open>term_out\<close> is what the
  client has written to the terminal with \<open>Fprintf\<close>; \<open>input\<close> and \<open>prompt\<close> are the
  state of the reader; \<open>trace\<close> is the list of backend calls made.
\<close>

record CLI =
  config :: Config
  db :: "handle option"
  expandedMode :: bool
  timingEnabled :: bool
  maxRows :: int
  inTransaction :: bool
  database :: string
  term_out :: string
  input :: line_source
  prompt :: string
  trace :: "event list"

text \<open>A call on a nil \<open>*sql.DB\<close> panics; a panic ends the process.\<close>

datatype 'a outcome = Panicked | Returned 'a

definition second :: int where "second = 1000000000"
definition hour :: int where "hour = 3600 * second"

definition NewCLIWithConfig :: "line_source \<Rightarrow> Config \<Rightarrow> CLI" where
  "NewCLIWithConfig src cfg0 =
     (let cfg1 = (if SSLMode cfg0 = [] then cfg0\<lparr>SSLMode := ''disable''\<rparr> else cfg0);
          cfg2 = (if ConnectTimeout cfg1 = 0 then cfg1\<lparr>ConnectTimeout := 10 * second\<rparr> else cfg1);
          cfg3 = (if MaxOpenConns cfg2 = 0 then cfg2\<lparr>MaxOpenConns := 10\<rparr> else cfg2);
          cfg4 = (if MaxIdleConns cfg3 = 0 then cfg3\<lparr>MaxIdleConns := 5\<rparr> else cfg3);
          cfg5 = (if ConnMaxLifetime cfg4 = 0 then cfg4\<lparr>ConnMaxLifetime := hour\<rparr> else cfg4);
          cfg6 = (if ApplicationName cfg5 = [] then cfg5\<lparr>ApplicationName := ''psql''\<rparr> else cfg5)
      in \<lparr> config = cfg6, db = None, expandedMode = False, timingEnabled = False,
           maxRows = 1000, inTransaction = False, database = Database cfg6,
           term_out = [], input = src, prompt = [], trace = [] \<rparr>)"

definition NewCLI :: "line_source \<Rightarrow> string \<Rightarrow> int \<Rightarrow> string \<Rightarrow> string \<Rightarrow> string \<Rightarrow> CLI" where
  "NewCLI src host port username password dbname =
     NewCLIWithConfig src
       \<lparr> Host = host, Port = port, Username = username, Password = password,
         Database = dbname, SSLMode = ''disable'', ConnectTimeout = 10 * second,
         StatementTimeout = 0, MaxOpenConns = 10, MaxIdleConns = 5, ConnMaxLifetime = hour,
         ApplicationName = ''psql'', SearchPath = [], TimeZone = [], CustomParams = [] \<rparr>"

text \<open>
  The DSN that \<open>Connect\<close> builds and opens. Go computes \<open>int(d.Seconds())\<close>, and
  \<open>Seconds\<close> adds the whole seconds and the fraction as float64. The truncating division
  here is its value for every whole number of seconds and for every duration shorter
  than \<open>2^23\<close> seconds; for a longer duration whose fraction is close to a full second the
  float sum can round up to the next second, which is not modelled.
  \<open>d.Milliseconds()\<close> is an integer division.
\<close>

definition truncDiv :: "int \<Rightarrow> int \<Rightarrow> int" where
  "truncDiv a b = sgn a * sgn b * (\<bar>a\<bar> div \<bar>b\<bar>)"

definition Connect_dsn :: "Config \<Rightarrow> string" where
  "Connect_dsn cfg =
     (let dsn0 = ''host='' @ Host cfg @ '' port='' @ itoa (Port cfg) @ '' user='' @ Username cfg
                 @ '' password='' @ Password cfg @ '' dbname='' @ Database cfg
                 @ '' sslmode='' @ SSLMode cfg
                 @ '' connect_timeout='' @ itoa (truncDiv (ConnectTimeout cfg) second);
          dsn1 = (if ApplicationName cfg \<noteq> [] then dsn0 @ '' application_name='' @ ApplicationName cfg else dsn0);
          dsn2 = (if SearchPath cfg \<noteq> [] then dsn1 @ '' search_path='' @ SearchPath cfg else dsn1);
          dsn3 = (if TimeZone cfg \<noteq> [] then dsn2 @ '' timezone='' @ TimeZone cfg else dsn2);
          dsn4 = (if StatementTimeout cfg > 0
                  then dsn3 @ '' statement_timeout='' @ itoa (truncDiv (StatementTimeout cfg) 1000000)
                  else dsn3)
      in if CustomParams cfg \<noteq> [] then dsn4 @ '' '' @ CustomParams cfg else dsn4)"

section \<open>Prompt and statement accumulation\<close>

definition getPrompt :: "CLI \<Rightarrow> string" where
  "getPrompt c = (if inTransaction c then database c @ ''*=> '' else database c @ ''=> '')"

definition readMultiLine :: "CLI \<Rightarrow> string \<times> CLI" where
  "readMultiLine c =
     (case readLoop (database c) (input c) [] (prompt c) of
        (unit, rest, p) \<Rightarrow> (unit, c\<lparr>input := rest, prompt := p\<rparr>))"

section \<open>Result rendering\<close>

text \<open>
  \<open>rows.Scan\<close> into \<open>len(cols)\<close> destinations; its error is ignored, and on an error
  (a row of another length) the destinations keep their nil.
\<close>

definition scanRow :: "nat \<Rightarrow> sqlval list \<Rightarrow> sqlval list" where
  "scanRow n r = (if length r = n then r else replicate n VNil)"

definition timingLine :: "env \<Rightarrow> CLI \<Rightarrow> string" where
  "timingLine E c = (if timingEnabled c then ''Time: '' @ elapsed E (trace c) @ '' ms'' @ [nl] else [])"

subsection \<open>displayTable\<close>

definition headerWidth :: "string \<Rightarrow> nat" where
  "headerWidth col =
     (let w0 = length col; w1 = (if w0 < 4 then 4 else w0) in if w1 > 50 then 50 else w1)"

text \<open>The width update of one cell: the column's width so far and the formatted value.\<close>

definition fitCell :: "nat \<Rightarrow> string \<Rightarrow> nat \<times> string" where
  "fitCell w v =
     (if length v > w
      then (if length v > 50 then (50, take 47 v @ ''...'') else (length v, v))
      else (w, v))"

text \<open>One row: \<open>colWidths\<close> and the row's values have \<open>len(cols)\<close> entries each.\<close>

definition fitRow :: "nat list \<Rightarrow> string list \<Rightarrow> nat list \<times> string list" where
  "fitRow ws vs = (let cells = map (\<lambda>(w, v). fitCell w v) (zip ws vs) in (map fst cells, map snd cells))"

text \<open>
  The collecting loop over \<open>rows.Next()\<close>: the widths, the rows collected so far and
  the stream; it returns the rows of the stream it has not read as well.
\<close>

fun collectRows :: "int \<Rightarrow> nat list \<Rightarrow> string list list \<Rightarrow> sqlval list list
    \<Rightarrow> nat list \<times> string list list \<times> sqlval list list" where
  "collectRows maxR ws allRows [] = (ws, allRows, [])"
| "collectRows maxR ws allRows (r # rest) =
     (case fitRow ws (map formatValue (scanRow (length ws) r)) of
        (ws', rowStrs) \<Rightarrow>
          if int (length (allRows @ [rowStrs])) \<ge> maxR then (ws', allRows @ [rowStrs], rest)
          else collectRows maxR ws' (allRows @ [rowStrs]) rest)"

fun cellsLine :: "(nat \<times> string) list \<Rightarrow> string" where
  "cellsLine [] = []"
| "cellsLine [(w, v)] = padRight w v @ '' ''"
| "cellsLine ((w, v) # x # xs) = padRight w v @ '' '' @ ''| '' @ cellsLine (x # xs)"

fun dashesLine :: "nat list \<Rightarrow> string" where
  "dashesLine [] = []"
| "dashesLine [w] = replicate (w + 1) (CHR ''-'')"
| "dashesLine (w # x # xs) = replicate (w + 1) (CHR ''-'') @ ''+-'' @ dashesLine (x # xs)"

definition rowCountLine :: "nat \<Rightarrow> string" where
  "rowCountLine n =
     (if n = 0 then ''(0 rows)'' @ [nl]
      else if n = 1 then ''(1 row)'' @ [nl]
      else ''('' @ itoa (int n) @ '' rows)'' @ [nl])"

definition tableText :: "string list \<Rightarrow> nat list \<Rightarrow> string list list \<Rightarrow> string" where
  "tableText cols ws allRows =
     '' '' @ cellsLine (zip ws cols) @ [nl]
     @ dashesLine ws @ [nl]
     @ concat (map (\<lambda>row. '' '' @ cellsLine (zip ws row) @ [nl]) allRows)
     @ rowCountLine (length allRows)"

definition displayTable :: "env \<Rightarrow> CLI \<Rightarrow> string list \<Rightarrow> sqlval list list
    \<Rightarrow> CLI \<times> sqlval list list" where
  "displayTable E c cols rows =
     (case collectRows (maxRows c) (map headerWidth cols) [] rows of
        (ws, allRows, unread) \<Rightarrow>
          (c\<lparr>term_out := term_out c @ tableText cols ws allRows @ timingLine E c @ [nl]\<rparr>,
           unread))"

subsection \<open>displayExpanded\<close>

definition maxColLen :: "string list \<Rightarrow> nat" where
  "maxColLen cols = foldl (\<lambda>m col. if length col > m then length col else m) 0 cols"

definition recordText :: "string list \<Rightarrow> sqlval list \<Rightarrow> string" where
  "recordText cols vals =
     concat (map (\<lambda>(col, v). padRight (maxColLen cols) col @ '' | '' @ formatValue v @ [nl])
                 (zip cols vals))"

text \<open>
  The loop of \<open>displayExpanded\<close>: the text written so far, \<open>rowNum\<close> and the stream.
  \<open>strings.Repeat\<close> panics on a negative count.
\<close>

fun expandedLoop :: "int \<Rightarrow> string list \<Rightarrow> string \<Rightarrow> int \<Rightarrow> sqlval list list
    \<Rightarrow> (string \<times> int \<times> sqlval list list) outcome" where
  "expandedLoop maxR cols out rowNum [] = Returned (out, rowNum, [])"
| "expandedLoop maxR cols out rowNum (r # rest) =
     (let rowNum' = rowNum + 1;
          vals = scanRow (length cols) r;
          title = ''-[ RECORD '' @ itoa rowNum' @ '' ]''
      in if 50 < length title then Panicked
         else (let out' = out @ title @ replicate (50 - length title) (CHR ''-'') @ [nl]
                          @ recordText cols vals
               in if rowNum' \<ge> maxR then Returned (out', rowNum', rest)
                  else expandedLoop maxR cols out' rowNum' rest))"

definition displayExpanded :: "env \<Rightarrow> CLI \<Rightarrow> string list \<Rightarrow> sqlval list list
    \<Rightarrow> (CLI \<times> sqlval list list) outcome" where
  "displayExpanded E c cols rows =
     (case expandedLoop (maxRows c) cols [] 0 rows of
        Panicked \<Rightarrow> Panicked
      | Returned (out, rowNum, unread) \<Rightarrow>
          Returned
            (c\<lparr>term_out := term_out c @ out
                  @ (if rowNum = 0 then ''(0 rows)'' @ [nl] else [])
                  @ timingLine E c @ [nl]\<rparr>,
             unread))"

section \<open>The statement router\<close>

definition isQuery :: "string \<Rightarrow> bool" where
  "isQuery sqlStr =
     (let upper = ToUpper (TrimSpace sqlStr)
      in list_ex (HasPrefix upper)
           [''SELECT'', ''SHOW'', ''WITH'', ''TABLE'', ''VALUES'', ''EXPLAIN'', ''ANALYZE''])"

definition printError :: "CLI \<Rightarrow> string \<Rightarrow> CLI" where
  "printError c errMsg = c\<lparr>term_out := term_out c @ ''ERROR: '' @ errMsg @ [nl, nl]\<rparr>"

definition executeQuery :: "env \<Rightarrow> CLI \<Rightarrow> string \<Rightarrow> CLI outcome" where
  "executeQuery E c sqlStr =
     (case db c of
        None \<Rightarrow> Panicked
      | Some h \<Rightarrow>
          (let c1 = c\<lparr>trace := trace c @ [EvQuery h 60 sqlStr]\<rparr>
           in case query_reply E (trace c) h 60 sqlStr of
                Inl err \<Rightarrow> Returned (printError c1 err)
              | Inr (cols, rows) \<Rightarrow>
                  if expandedMode c1
                  then (case displayExpanded E c1 cols rows of
                          Panicked \<Rightarrow> Panicked
                        | Returned (c2, unread) \<Rightarrow> Returned c2)
                  else Returned (fst (displayTable E c1 cols rows))))"

definition commandTag :: "string \<Rightarrow> string" where
  "commandTag sqlStr =
     (let upperSQL = ToUpper (TrimSpace sqlStr)
      in if HasPrefix upperSQL ''INSERT'' then ''INSERT''
         else if HasPrefix upperSQL ''UPDATE'' then ''UPDATE''
         else if HasPrefix upperSQL ''DELETE'' then ''DELETE''
         else if HasPrefix upperSQL ''CREATE'' then ''CREATE''
         else if HasPrefix upperSQL ''DROP'' then ''DROP''
         else if HasPrefix upperSQL ''ALTER'' then ''ALTER''
         else ''COMMAND'')"

definition executeCommand :: "env \<Rightarrow> CLI \<Rightarrow> string \<Rightarrow> CLI outcome" where
  "executeCommand E c sqlStr =
     (case db c of
        None \<Rightarrow> Panicked
      | Some h \<Rightarrow>
          (let c1 = c\<lparr>trace := trace c @ [EvExec h 60 sqlStr]\<rparr>
           in case exec_reply E (trace c) h 60 sqlStr of
                Inl err \<Rightarrow> Returned (printError c1 err)
              | Inr affected \<Rightarrow>
                  Returned
                    (c1\<lparr>term_out := term_out c1 @ commandTag sqlStr @ '' '' @ itoa affected @ [nl]
                           @ timingLine E c1 @ [nl]\<rparr>)))"

text \<open>
  What each of the three transaction branches of \<open>executeSQL\<close> does after it has set
  the flag: \<open>ExecContext\<close> of the keyword under a timeout of 30 seconds, then the error
  line, or the keyword and the timing line.
\<close>

definition execKeyword :: "env \<Rightarrow> CLI \<Rightarrow> string \<Rightarrow> CLI outcome" where
  "execKeyword E c kw =
     (case db c of
        None \<Rightarrow> Panicked
      | Some h \<Rightarrow>
          (let c1 = c\<lparr>trace := trace c @ [EvExec h 30 kw]\<rparr>
           in case exec_reply E (trace c) h 30 kw of
                Inl err \<Rightarrow> Returned (c1\<lparr>term_out := term_out c1 @ ''ERROR: '' @ err @ [nl]\<rparr>)
              | Inr affected \<Rightarrow>
                  Returned (c1\<lparr>term_out := term_out c1 @ kw @ [nl] @ timingLine E c1\<rparr>)))"

definition executeSQL :: "env \<Rightarrow> CLI \<Rightarrow> string \<Rightarrow> CLI outcome" where
  "executeSQL E c sqlStr0 =
     (let sqlStr = TrimSpace (TrimSuffix (TrimSpace sqlStr0) '';'')
      in if sqlStr = [] then Returned c
         else (let upperSQL = ToUpper sqlStr
               in if upperSQL = ''BEGIN'' \<or> upperSQL = ''START TRANSACTION''
                  then execKeyword E (c\<lparr>inTransaction := True\<rparr>) ''BEGIN''
                  else if upperSQL = ''COMMIT''
                  then execKeyword E (c\<lparr>inTransaction := False\<rparr>) ''COMMIT''
                  else if upperSQL = ''ROLLBACK''
                  then execKeyword E (c\<lparr>inTransaction := False\<rparr>) ''ROLLBACK''
                  else if isQuery sqlStr then executeQuery E c sqlStr
                  else executeCommand E c sqlStr))"

section \<open>The meta-command dispatcher\<close>

definition sqlListDatabases :: string where
  "sqlListDatabases =
     ''SELECT datname AS '' @ [dq] @ ''Name'' @ [dq]
     @ '', pg_catalog.pg_get_userbyid(datdba) AS '' @ [dq] @ ''Owner'' @ [dq]
     @ '', pg_catalog.pg_encoding_to_char(encoding) AS '' @ [dq] @ ''Encoding'' @ [dq]
     @ '' FROM pg_catalog.pg_database ORDER BY datname''"

definition sqlListTables :: string where
  "sqlListTables =
     ''SELECT schemaname AS '' @ [dq] @ ''Schema'' @ [dq] @ '', tablename AS '' @ [dq]
     @ ''Name'' @ [dq] @ '', tableowner AS '' @ [dq] @ ''Owner'' @ [dq]
     @ '' FROM pg_catalog.pg_tables WHERE schemaname NOT IN ('' @ [sq] @ ''pg_catalog''
     @ [sq] @ '', '' @ [sq] @ ''information_schema'' @ [sq]
     @ '') ORDER BY schemaname, tablename''"

definition sqlListSchemas :: string where
  "sqlListSchemas =
     ''SELECT nspname AS '' @ [dq] @ ''Name'' @ [dq]
     @ '', pg_catalog.pg_get_userbyid(nspowner) AS '' @ [dq] @ ''Owner'' @ [dq]
     @ '' FROM pg_catalog.pg_namespace WHERE nspname !~ '' @ [sq] @ ''^pg_'' @ [sq]
     @ '' AND nspname <> '' @ [sq] @ ''information_schema'' @ [sq] @ '' ORDER BY nspname''"

definition sqlListViews :: string where
  "sqlListViews =
     ''SELECT schemaname AS '' @ [dq] @ ''Schema'' @ [dq] @ '', viewname AS '' @ [dq]
     @ ''Name'' @ [dq] @ '', viewowner AS '' @ [dq] @ ''Owner'' @ [dq]
     @ '' FROM pg_catalog.pg_views WHERE schemaname NOT IN ('' @ [sq] @ ''pg_catalog'' @ [sq]
     @ '', '' @ [sq] @ ''information_schema'' @ [sq] @ '') ORDER BY schemaname, viewname''"

definition sqlListIndexes :: string where
  "sqlListIndexes =
     ''SELECT schemaname AS '' @ [dq] @ ''Schema'' @ [dq] @ '', indexname AS '' @ [dq]
     @ ''Name'' @ [dq] @ '', tablename AS '' @ [dq] @ ''Table'' @ [dq]
     @ '' FROM pg_catalog.pg_indexes WHERE schemaname NOT IN ('' @ [sq] @ ''pg_catalog''
     @ [sq] @ '', '' @ [sq] @ ''information_schema'' @ [sq]
     @ '') ORDER BY schemaname, indexname''"

definition sqlListSequences :: string where
  "sqlListSequences =
     ''SELECT schemaname AS '' @ [dq] @ ''Schema'' @ [dq] @ '', sequencename AS '' @ [dq]
     @ ''Name'' @ [dq] @ '', sequenceowner AS '' @ [dq] @ ''Owner'' @ [dq]
     @ '' FROM pg_catalog.pg_sequences WHERE schemaname NOT IN ('' @ [sq] @ ''pg_catalog''
     @ [sq] @ '', '' @ [sq] @ ''information_schema'' @ [sq]
     @ '') ORDER BY schemaname, sequencename''"

definition sqlListFunctions :: string where
  "sqlListFunctions =
     ''SELECT n.nspname AS '' @ [dq] @ ''Schema'' @ [dq] @ '', p.proname AS '' @ [dq]
     @ ''Name'' @ [dq] @ '', pg_catalog.pg_get_function_result(p.oid) AS '' @ [dq]
     @ ''Result data type'' @ [dq]
     @ '' FROM pg_catalog.pg_proc p LEFT JOIN pg_catalog.pg_namespace n ON n.oid = p.''
     @ ''pronamespace WHERE n.nspname NOT IN ('' @ [sq] @ ''pg_catalog'' @ [sq] @ '', ''
     @ [sq] @ ''information_schema'' @ [sq] @ '') ORDER BY n.nspname, p.proname''"

definition sqlListRoles :: string where
  "sqlListRoles =
     ''SELECT rolname AS '' @ [dq] @ ''Role name'' @ [dq] @ '', rolsuper AS '' @ [dq]
     @ ''Superuser'' @ [dq] @ '', rolinherit AS '' @ [dq] @ ''Inherit'' @ [dq]
     @ '', rolcreaterole AS '' @ [dq] @ ''Create role'' @ [dq] @ '', rolcreatedb AS '' @ [dq]
     @ ''Create DB'' @ [dq] @ '' FROM pg_catalog.pg_roles ORDER BY rolname''"

definition sqlPublicTables :: string where
  "sqlPublicTables =
     ''SELECT tablename FROM pg_catalog.pg_tables WHERE schemaname = '' @ [sq] @ ''public''
     @ [sq] @ '' ORDER BY tablename''"

definition helpText :: string where
  "helpText =
     [nl] @ ''General'' @ [nl] @ ''  '' @ [bs, bs] @ ''?, help               show this help''
     @ [nl] @ ''  '' @ [bs, bs] @ ''q, exit, quit         quit psql'' @ [nl, nl]
     @ ''Connection'' @ [nl] @ ''  '' @ [bs, bs]
     @ ''c [DBNAME]            connect to new database'' @ [nl] @ ''  '' @ [bs, bs]
     @ ''conninfo              display information about connection'' @ [nl, nl]
     @ ''Informational'' @ [nl] @ ''  '' @ [bs, bs]
     @ ''d [NAME]              describe table, view, sequence, or index'' @ [nl] @ ''  ''
     @ [bs, bs] @ ''dt[+]                 list tables'' @ [nl] @ ''  '' @ [bs, bs]
     @ ''dv[+]                 list views'' @ [nl] @ ''  '' @ [bs, bs]
     @ ''di[+]                 list indexes'' @ [nl] @ ''  '' @ [bs, bs]
     @ ''ds[+]                 list sequences'' @ [nl] @ ''  '' @ [bs, bs]
     @ ''df[+]                 list functions'' @ [nl] @ ''  '' @ [bs, bs]
     @ ''dn[+]                 list schemas'' @ [nl] @ ''  '' @ [bs, bs]
     @ ''du[+]                 list roles'' @ [nl] @ ''  '' @ [bs, bs] @ ''l, '' @ [bs, bs]
     @ ''list             list databases'' @ [nl, nl] @ ''Formatting'' @ [nl] @ ''  ''
     @ [bs, bs] @ ''x                     toggle expanded output'' @ [nl] @ ''  '' @ [bs, bs]
     @ ''timing                toggle timing of commands'' @ [nl, nl] @ ''Transaction''
     @ [nl] @ ''  BEGIN                   start a transaction'' @ [nl]
     @ ''  COMMIT                  commit current transaction'' @ [nl]
     @ ''  ROLLBACK                rollback current transaction'' @ [nl, nl]
     @ ''Query Buffer'' @ [nl] @ ''  '' @ [bs, bs]
     @ ''h [NAME]              help on syntax of SQL commands'' @ [nl, nl]"

definition describeQuery :: "string \<Rightarrow> string" where
  "describeQuery tableName =
     [nl, tab, tab] @ ''SELECT '' @ [nl, tab, tab, tab] @ ''a.attname AS '' @ [dq]
     @ ''Column'' @ [dq] @ '','' @ [nl, tab, tab, tab]
     @ ''pg_catalog.format_type(a.atttypid, a.atttypmod) AS '' @ [dq] @ ''Type'' @ [dq]
     @ '','' @ [nl, tab, tab, tab] @ ''CASE WHEN a.attnotnull THEN '' @ [sq] @ ''not null''
     @ [sq] @ '' ELSE '' @ [sq, sq] @ '' END AS '' @ [dq] @ ''Modifiers''
     @ [dq, nl, tab, tab] @ ''FROM pg_catalog.pg_attribute a'' @ [nl, tab, tab]
     @ ''WHERE a.attrelid = ('' @ [nl, tab, tab, tab]
     @ ''SELECT c.oid FROM pg_catalog.pg_class c'' @ [nl, tab, tab, tab]
     @ ''LEFT JOIN pg_catalog.pg_namespace n ON n.oid = c.relnamespace''
     @ [nl, tab, tab, tab] @ ''WHERE c.relname = '' @ [sq]
     @ tableName @
     [sq] @ '' AND n.nspname = '' @ [sq] @ ''public'' @ [sq, nl, tab, tab]
     @ '') AND a.attnum > 0 AND NOT a.attisdropped'' @ [nl, tab, tab] @ ''ORDER BY a.attnum''
     @ [nl, tab]"

definition showHelp :: "CLI \<Rightarrow> CLI" where
  "showHelp c = c\<lparr>term_out := term_out c @ helpText\<rparr>"

text \<open>\<open>parts[1]\<close> of an empty slice panics.\<close>

definition showSQLHelp :: "CLI \<Rightarrow> string \<Rightarrow> CLI outcome" where
  "showSQLHelp c cmd =
     (case Fields cmd of
        [] \<Rightarrow> Panicked
      | [p0] \<Rightarrow>
          Returned
            (c\<lparr>term_out := term_out c
                  @ ''Available help:'' @ [nl]
                  @ ''  SELECT, INSERT, UPDATE, DELETE'' @ [nl]
                  @ ''  CREATE TABLE, DROP TABLE, ALTER TABLE'' @ [nl]
                  @ ''  CREATE INDEX, DROP INDEX'' @ [nl]
                  @ ''  BEGIN, COMMIT, ROLLBACK'' @ [nl]
                  @ ''Use '' @ [bs] @ ''h <command> for help on specific command'' @ [nl, nl]\<rparr>)
      | p0 # p1 # ps \<Rightarrow>
          Returned
            (c\<lparr>term_out := term_out c
                  @ ''No detailed help available for: '' @ p1 @ [nl]
                  @ ''Please refer to PostgreSQL documentation.'' @ [nl, nl]\<rparr>))"

definition showConnectionInfo :: "CLI \<Rightarrow> CLI" where
  "showConnectionInfo c =
     c\<lparr>term_out := term_out c
          @ ''You are connected to database '' @ [dq] @ database c @ [dq]
          @ '' as user '' @ [dq] @ Username (config c) @ [dq]
          @ '' via socket in '' @ [dq] @ Host (config c) @ [dq]
          @ '' at port '' @ [dq] @ itoa (Port (config c)) @ [dq] @ ''.'' @ [nl]\<rparr>"

definition switchDSN :: "Config \<Rightarrow> string \<Rightarrow> string" where
  "switchDSN cfg dbName =
     ''host='' @ Host cfg @ '' port='' @ itoa (Port cfg) @ '' user='' @ Username cfg
     @ '' password='' @ Password cfg @ '' dbname='' @ dbName
     @ '' sslmode=disable connect_timeout=10''"

definition connectToDatabase :: "env \<Rightarrow> CLI \<Rightarrow> string \<Rightarrow> CLI" where
  "connectToDatabase E c dbName =
     (let dsn = switchDSN (config c) dbName;
          c1 = c\<lparr>trace := trace c @ [EvOpen dsn]\<rparr>
      in case open_reply E (trace c) dsn of
           Inl err \<Rightarrow> c1\<lparr>term_out := term_out c1 @ ''ERROR: '' @ err @ [nl]\<rparr>
         | Inr newDB \<Rightarrow>
             (case ping_reply E (trace c1) newDB of
                Some err \<Rightarrow>
                  c1\<lparr>trace := trace c1 @ [EvPing newDB, EvClose newDB],
                      term_out := term_out c1 @ ''ERROR: database '' @ [dq] @ dbName @ [dq]
                                  @ '' does not exist'' @ [nl]\<rparr>
              | None \<Rightarrow>
                  c1\<lparr>trace := trace c1 @ [EvPing newDB]
                               @ (case db c1 of None \<Rightarrow> [] | Some old \<Rightarrow> [EvClose old]),
                      db := Some newDB,
                      database := dbName,
                      term_out := term_out c1 @ ''You are now connected to database '' @ [dq]
                                  @ dbName @ [dq] @ '' as user '' @ [dq] @ Username (config c1)
                                  @ [dq] @ ''.'' @ [nl]\<rparr>))"

definition printSeparator :: "nat list \<Rightarrow> string" where
  "printSeparator colWidths =
     ''+'' @ concat (map (\<lambda>w. replicate (w + 2) (CHR ''-'') @ ''+'') colWidths) @ [nl]"

definition describeCells :: "nat list \<Rightarrow> string list \<Rightarrow> string" where
  "describeCells colWidths strs =
     ''| '' @ concat (map (\<lambda>(w, v). padRight w v @ '' | '') (zip colWidths strs)) @ [nl]"

text \<open>\<open>colWidths\<close> has three entries; indexing it for a fourth column panics.\<close>

definition describeTable :: "env \<Rightarrow> CLI \<Rightarrow> string \<Rightarrow> CLI outcome" where
  "describeTable E c tableName =
     (case db c of
        None \<Rightarrow> Panicked
      | Some h \<Rightarrow>
          (let query = describeQuery tableName;
               c1 = c\<lparr>trace := trace c @ [EvQuery h 30 query]\<rparr>
           in case query_reply E (trace c) h 30 query of
                Inl err \<Rightarrow> Returned (c1\<lparr>term_out := term_out c1 @ ''ERROR: '' @ err @ [nl]\<rparr>)
              | Inr (cols, rows) \<Rightarrow>
                  (let colWidths = [10, 20, 15]
                   in if length cols > length colWidths then Panicked
                      else Returned
                        (c1\<lparr>term_out := term_out c1
                               @ ''Table '' @ [dq] @ tableName @ [dq, nl]
                               @ printSeparator colWidths
                               @ describeCells colWidths cols
                               @ printSeparator colWidths
                               @ concat (map (\<lambda>r. describeCells colWidths
                                                     (map sprintV (scanRow (length cols) r))) rows)
                               @ printSeparator colWidths
                               @ [nl]\<rparr>))))"

definition handled :: "CLI outcome \<Rightarrow> (bool \<times> CLI) outcome" where
  "handled r = (case r of Panicked \<Rightarrow> Panicked | Returned c \<Rightarrow> Returned (True, c))"

definition handlePsqlCommand :: "env \<Rightarrow> CLI \<Rightarrow> string \<Rightarrow> (bool \<times> CLI) outcome" where
  "handlePsqlCommand E c cmd0 =
     (let cmd = TrimSpace cmd0; cmdLower = ToLower cmd
      in if cmd = bs # ''q'' \<or> cmdLower = ''exit'' \<or> cmdLower = ''quit''
           then Returned (True, c\<lparr>term_out := term_out c @ [nl]\<rparr>)
         else if cmd = bs # ''?'' \<or> cmdLower = ''help''
           then Returned (True, showHelp c)
         else if cmd = bs # ''h'' \<or> HasPrefix cmd (bs # ''h '')
           then handled (showSQLHelp c cmd)
         else if cmd = bs # ''l'' \<or> cmd = bs # ''list''
           then handled (executeSQL E c sqlListDatabases)
         else if HasPrefix cmd (bs # ''c '') \<or> HasPrefix cmd (bs # ''connect '')
           then (case Fields cmd of
                   p0 # p1 # ps \<Rightarrow> Returned (True, connectToDatabase E c p1)
                 | _ \<Rightarrow> Returned (True, c\<lparr>term_out := term_out c
                                               @ ''ERROR: database name required'' @ [nl]\<rparr>))
         else if cmd = bs # ''dt'' \<or> cmd = bs # ''dt+''
           then handled (executeSQL E c sqlListTables)
         else if cmd = bs # ''dn'' \<or> cmd = bs # ''dn+''
           then handled (executeSQL E c sqlListSchemas)
         else if HasPrefix cmd (bs # ''d '')
           then handled (describeTable E c (TrimSpace (drop 3 cmd)))
         else if cmd = bs # ''dv'' \<or> cmd = bs # ''dv+''
           then handled (executeSQL E c sqlListViews)
         else if cmd = bs # ''di'' \<or> cmd = bs # ''di+''
           then handled (executeSQL E c sqlListIndexes)
         else if cmd = bs # ''ds'' \<or> cmd = bs # ''ds+''
           then handled (executeSQL E c sqlListSequences)
         else if cmd = bs # ''df'' \<or> cmd = bs # ''df+''
           then handled (executeSQL E c sqlListFunctions)
         else if cmd = bs # ''du'' \<or> cmd = bs # ''du+''
           then handled (executeSQL E c sqlListRoles)
         else if cmd = bs # ''x''
           then (let c1 = c\<lparr>expandedMode := \<not> expandedMode c\<rparr>
                 in Returned (True,
                      c1\<lparr>term_out := term_out c1
                            @ (if expandedMode c1 then ''Expanded display is on.'' @ [nl]
                               else ''Expanded display is off.'' @ [nl])\<rparr>))
         else if cmd = bs # ''timing''
           then (let c1 = c\<lparr>timingEnabled := \<not> timingEnabled c\<rparr>
                 in Returned (True,
                      c1\<lparr>term_out := term_out c1
                            @ (if timingEnabled c1 then ''Timing is on.'' @ [nl]
                               else ''Timing is off.'' @ [nl])\<rparr>))
         else if cmd = bs # ''conninfo''
           then Returned (True, showConnectionInfo c)
         else if cmd = bs # ''d''
           then handled (executeSQL E c sqlPublicTables)
         else Returned (False, c))"

section \<open>The session loop\<close>

text \<open>
  \<open>Start\<close> loops until an exit command; the first argument bounds the number of
  iterations, and \<open>None\<close> says that the loop has not returned within the bound.
  \<open>Start\<close> returns no error but nil, so a return is the session it leaves.
\<close>

fun Start :: "nat \<Rightarrow> env \<Rightarrow> CLI \<Rightarrow> CLI outcome option" where
  "Start 0 E c = None"
| "Start (Suc n) E c =
     (case readMultiLine (c\<lparr>prompt := getPrompt c\<rparr>) of
        (sqlStr0, c1) \<Rightarrow>
          if sqlStr0 = [] then Start n E c1
          else (let sqlStr = TrimSpace sqlStr0
                in case handlePsqlCommand E c1 sqlStr of
                     Panicked \<Rightarrow> Some Panicked
                   | Returned (True, c2) \<Rightarrow>
                       if ToLower sqlStr = ''exit'' \<or> ToLower sqlStr = ''quit'' \<or> sqlStr = bs # ''q''
                       then Some (Returned c2)
                       else Start n E c2
                   | Returned (False, c2) \<Rightarrow>
                       (case executeSQL E c2 sqlStr of
                          Panicked \<Rightarrow> Some Panicked
                        | Returned c3 \<Rightarrow> Start n E c3)))"

section \<open>A sample session\<close>

text \<open>
  The configuration of the repository's example program, with an SSL mode and a connect
  timeout of its own, and the session made from it once a connection is there.
\<close>

definition demoConfig :: Config where
  "demoConfig =
     \<lparr> Host = ''localhost'', Port = 5432, Username = ''postgres'', Password = ''password'',
       Database = ''testdb'', SSLMode = ''require'', ConnectTimeout = 15 * second,
       StatementTimeout = 0, MaxOpenConns = 10, MaxIdleConns = 5, ConnMaxLifetime = hour,
       ApplicationName = ''psql'', SearchPath = [], TimeZone = [], CustomParams = [] \<rparr>"

definition demo :: CLI where
  "demo = (NewCLIWithConfig [] demoConfig)\<lparr>db := Some 1\<rparr>"

text \<open>A backend that accepts every call, and one that refuses every call.\<close>

definition accepting :: env where
  "accepting =
     \<lparr> open_reply = (\<lambda>tr dsn. Inr 2),
       ping_reply = (\<lambda>tr h. None),
       exec_reply = (\<lambda>tr h t q. Inr 0),
       query_reply = (\<lambda>tr h t q. Inr ([''id'', ''name''], [[VInt 1, VString ''ab''], [VInt 2, VNil]])),
       elapsed = (\<lambda>tr. ''0.250'') \<rparr>"

definition refusing :: env where
  "refusing =
     \<lparr> open_reply = (\<lambda>tr dsn. Inr 2),
       ping_reply = (\<lambda>tr h. Some ''connection refused''),
       exec_reply = (\<lambda>tr h t q. Inl ''connection refused''),
       query_reply = (\<lambda>tr h t q. Inl ''connection refused''),
       elapsed = (\<lambda>tr. ''0.250'') \<rparr>"

text \<open>
  The classification in the specification's words: a statement is query-shaped when,
  trimmed, it begins with one of the keywords, letter case ignored. Two texts are equal
  with letter case ignored when their lower-case forms are equal.
\<close>

definition asciiOnly :: "string \<Rightarrow> bool" where
  "asciiOnly s = list_all (\<lambda>c. (of_char c :: nat) < 128) s"

text \<open>A statement that begins with w, dotless i (U+0131), t, h.\<close>

definition dotlessWith :: string where
  "dotlessWith = ''w'' @ [CHR 0xC4, CHR 0xB1] @ ''th x as (select 1) select * from x''"

definition queryKeywords :: "string list" where
  "queryKeywords = [''SELECT'', ''SHOW'', ''WITH'', ''TABLE'', ''VALUES'', ''EXPLAIN'', ''ANALYZE'']"

definition beginsWithFold :: "string \<Rightarrow> string \<Rightarrow> bool" where
  "beginsWithFold s kw = (length kw \<le> length s \<and> ToLower (take (length kw) s) = ToLower kw)"

definition queryShaped :: "string \<Rightarrow> bool" where
  "queryShaped s = list_ex (beginsWithFold (TrimSpace s)) queryKeywords"

text \<open>The DSNs that a list of backend calls has opened, in order.\<close>

definition opened :: "event list \<Rightarrow> string list" where
  "opened tr = concat (map (\<lambda>e. case e of EvOpen dsn \<Rightarrow> [dsn] | _ \<Rightarrow> []) tr)"

text \<open>
  The table rendering in the specification's words: a value longer than 50 bytes is shown
  as its first 47 bytes and three dots; a column is as wide as the widest of its label
  (at least 4) and its formatted values, and no wider than 50.
\<close>

definition specCell :: "string \<Rightarrow> string" where
  "specCell v = (if length v > 50 then take 47 v @ ''...'' else v)"







definition cellsOf :: "nat \<Rightarrow> sqlval list \<Rightarrow> string list" where
  "cellsOf n r = map formatValue (scanRow n r)"

definition grow :: "nat list \<Rightarrow> string list \<Rightarrow> nat list" where
  "grow ws vs = map (\<lambda>(w, v). min 50 (max w (length v))) (zip ws vs)"

text \<open>A result of two columns; the last row has a value of 60 bytes.\<close>

definition tableCols :: "string list" where "tableCols = [''id'', ''name'']"
definition tableRows :: "sqlval list list" where
  "tableRows = [[VInt 1, VString ''ab''], [VInt 2, VNil], [VInt 3, VString (replicate 60 (CHR ''x''))]]"

lemma demo_eq:
  "demo = \<lparr> config = demoConfig, db = Some 1, expandedMode = False, timingEnabled = False,
            maxRows = 1000, inTransaction = False, database = ''testdb'',
            term_out = [], input = [], prompt = [], trace = [] \<rparr>"
  by (simp add: demo_def NewCLIWithConfig_def demoConfig_def second_def hour_def)

section \<open>Statement accumulation\<close>

text \<open>
  C4, as the code has it. When the first line of a unit, trimmed, starts with the
  backslash, \<open>readMultiLine\<close> returns the trimmed line as the unit and reads nothing
  more: the line source is left at the following read and the prompt is untouched.
\<close>

theorem C4_first_line_meta_returned_trimmed:
  "HasPrefix (TrimSpace line) [bs] \<Longrightarrow>
   readMultiLine (c\<lparr>input := Inr line # rest\<rparr>) = (TrimSpace line, c\<lparr>input := rest\<rparr>)"
  by (auto simp: readMultiLine_def HasPrefix_def Let_def)

theorem C4_first_line_meta_returned_trimmed_witness:
  "HasPrefix (TrimSpace (''  '' @ [bs] @ ''dt  '')) [bs] \<and>
   readMultiLine (demo\<lparr>input := [Inr (''  '' @ [bs] @ ''dt  ''), Inr ''select 1;'']\<rparr>)
     = (bs # ''dt'', demo\<lparr>input := [Inr ''select 1;'']\<rparr>)"
proof -
  have t: "TrimSpace (''  '' @ [bs] @ ''dt  '') = bs # ''dt''"
    by (simp add: str_eval)
  have h: "HasPrefix (TrimSpace (''  '' @ [bs] @ ''dt  '')) [bs]"
    unfolding t by (simp add: HasPrefix_def)
  show ?thesis
    using h C4_first_line_meta_returned_trimmed [OF h, where c = demo and rest = "[Inr ''select 1;'']"]
    unfolding t by simp
qed

text \<open>
  C4, as the claim words it, fails: the unit is the trimmed line, not the line as it
  was typed. Here the first line has two blanks before the backslash.
\<close>

theorem C4_verbatim_counterexample:
  "HasPrefix (TrimSpace (''  '' @ [bs] @ ''x'')) [bs] \<and>
   fst (readMultiLine (demo\<lparr>input := [Inr (''  '' @ [bs] @ ''x'')]\<rparr>)) \<noteq> ''  '' @ [bs] @ ''x''"
  by (simp add: readMultiLine_def str_eval)

text \<open>
  C3, as the code has it. Both tests are on the trimmed form of the line. With the buffer
  not empty: a line whose trimmed form does not start with the backslash and ends with
  a semicolon ends the accumulation, and the unit is the buffer and this line (as it was
  read, not trimmed) joined by newlines; a line whose trimmed form starts with the
  backslash is appended to the buffer as text and the accumulation goes on with the next
  read, whatever the line ends with.
\<close>

theorem C3_accumulation_step:
  "lines \<noteq> [] \<Longrightarrow>
   (\<not> HasPrefix (TrimSpace line) [bs] \<and> HasSuffix (TrimSpace line) '';'' \<longrightarrow>
      readLoop dbn (Inr line # rest) lines p = (Join (lines @ [line]) [nl], rest, p)) \<and>
   (HasPrefix (TrimSpace line) [bs] \<longrightarrow>
      readLoop dbn (Inr line # rest) lines p = readLoop dbn rest (lines @ [line]) p)"
  by (auto simp: Let_def)

theorem C3_accumulation_step_witness:
  "[''select 1''] \<noteq> [] \<and>
   \<not> HasPrefix (TrimSpace ''from t; '') [bs] \<and> HasSuffix (TrimSpace ''from t; '') '';'' \<and>
   readLoop ''testdb'' [Inr ''from t; '', Inr ''select 2;''] [''select 1''] ''testdb-> ''
     = (''select 1'' @ [nl] @ ''from t; '', [Inr ''select 2;''], ''testdb-> '') \<and>
   HasPrefix (TrimSpace (''  '' @ [bs] @ ''x;'')) [bs] \<and>
   readLoop ''testdb'' [Inr (''  '' @ [bs] @ ''x;''), Inr ''from t;''] [''select 1''] ''testdb-> ''
     = readLoop ''testdb'' [Inr ''from t;''] [''select 1'', ''  '' @ [bs] @ ''x;''] ''testdb-> ''"
proof -
  have n: "[''select 1''] \<noteq> ([] :: string list)" by simp
  have a: "\<not> HasPrefix (TrimSpace ''from t; '') [bs] \<and> HasSuffix (TrimSpace ''from t; '') '';''"
    by (simp add: str_eval)
  have b: "HasPrefix (TrimSpace (''  '' @ [bs] @ ''x;'')) [bs]"
    by (simp add: str_eval)
  show ?thesis
    using a b
      C3_accumulation_step [OF n, of "''from t; ''" "''testdb''" "[Inr ''select 2;'']" "''testdb-> ''"]
      C3_accumulation_step [OF n, of "''  '' @ [bs] @ ''x;''" "''testdb''" "[Inr ''from t;'']"
        "''testdb-> ''"]
    by simp
qed

text \<open>
  C3, as the claim words it, fails for a line whose trimmed form starts with the
  backslash: such a line does not end the accumulation even when it ends with a
  semicolon. With \<open>select 1\<close> in the buffer, the line \<open>\x;\<close> is appended and the next
  line is read.
\<close>

theorem C3_backslash_line_counterexample:
  "HasSuffix (TrimSpace (bs # ''x;'')) '';'' \<and>
   readLoop ''testdb'' [Inr (bs # ''x;''), Inr ''from t;''] [''select 1''] ''testdb-> ''
     \<noteq> (Join [''select 1'', bs # ''x;''] [nl], [Inr ''from t;''], ''testdb-> '') \<and>
   readLoop ''testdb'' [Inr (bs # ''x;''), Inr ''from t;''] [''select 1''] ''testdb-> ''
     = (''select 1'' @ [nl] @ [bs] @ ''x;'' @ [nl] @ ''from t;'', [], ''testdb-> '')"
  by (simp add: str_eval)

section \<open>Toggles\<close>

text \<open>
  C9. The command \<open>\x\<close> negates \<open>expandedMode\<close>, writes the line that tells the new
  state and changes nothing else; \<open>\timing\<close> does the same with \<open>timingEnabled\<close>.
  Dispatching either command twice brings its flag back to the value it had.
\<close>

theorem C9_toggles:
  "handlePsqlCommand E c (bs # ''x'')
     = Returned (True, c\<lparr>expandedMode := \<not> expandedMode c,
                          term_out := term_out c @ (if expandedMode c
                                                    then ''Expanded display is off.'' @ [nl]
                                                    else ''Expanded display is on.'' @ [nl])\<rparr>)
   \<and> handlePsqlCommand E c (bs # ''timing'')
     = Returned (True, c\<lparr>timingEnabled := \<not> timingEnabled c,
                          term_out := term_out c @ (if timingEnabled c
                                                    then ''Timing is off.'' @ [nl]
                                                    else ''Timing is on.'' @ [nl])\<rparr>)
   \<and> (\<exists>c1 c2. handlePsqlCommand E c (bs # ''x'') = Returned (True, c1)
            \<and> handlePsqlCommand E c1 (bs # ''x'') = Returned (True, c2)
            \<and> expandedMode c1 = (\<not> expandedMode c) \<and> expandedMode c2 = expandedMode c)
   \<and> (\<exists>c1 c2. handlePsqlCommand E c (bs # ''timing'') = Returned (True, c1)
            \<and> handlePsqlCommand E c1 (bs # ''timing'') = Returned (True, c2)
            \<and> timingEnabled c1 = (\<not> timingEnabled c) \<and> timingEnabled c2 = timingEnabled c)"
proof -
  have x: "handlePsqlCommand E d (bs # ''x'')
     = Returned (True, d\<lparr>expandedMode := \<not> expandedMode d,
                          term_out := term_out d @ (if expandedMode d
                                                    then ''Expanded display is off.'' @ [nl]
                                                    else ''Expanded display is on.'' @ [nl])\<rparr>)" for d
    by (simp add: handlePsqlCommand_def str_eval Let_def)
  have t: "handlePsqlCommand E d (bs # ''timing'')
     = Returned (True, d\<lparr>timingEnabled := \<not> timingEnabled d,
                          term_out := term_out d @ (if timingEnabled d
                                                    then ''Timing is off.'' @ [nl]
                                                    else ''Timing is on.'' @ [nl])\<rparr>)" for d
    by (simp add: handlePsqlCommand_def str_eval Let_def)
  show ?thesis
    by (simp only: x t) simp
qed

theorem C9_toggles_witness:
  "handlePsqlCommand accepting demo (bs # ''x'')
     = Returned (True, demo\<lparr>expandedMode := True, term_out := ''Expanded display is on.'' @ [nl]\<rparr>)
   \<and> handlePsqlCommand accepting demo (bs # ''timing'')
     = Returned (True, demo\<lparr>timingEnabled := True, term_out := ''Timing is on.'' @ [nl]\<rparr>)"
  using C9_toggles [of accepting demo] by (simp add: demo_eq)

section \<open>Classification\<close>

lemma toLowerC_toUpperC: "toLowerC (toUpperC c) = toLowerC c"
  unfolding toUpperC_def toLowerC_def Let_def by auto

lemma toUpperC_toLowerC: "toUpperC (toLowerC c) = toUpperC c"
  unfolding toUpperC_def toLowerC_def Let_def by auto

lemma toLowerC_o_toUpperC: "toLowerC \<circ> toUpperC = toLowerC"
  by (rule ext) (simp add: toLowerC_toUpperC)

lemma toUpperC_o_toLowerC: "toUpperC \<circ> toLowerC = toUpperC"
  by (rule ext) (simp add: toUpperC_toLowerC)

lemma ascii_not_lead:
  "(of_char c :: nat) < 128 \<Longrightarrow> c \<noteq> CHR 0xC4 \<and> c \<noteq> CHR 0xC5 \<and> c \<noteq> CHR 0xE2"
  by auto

lemma ToUpper_ascii: "asciiOnly s \<Longrightarrow> ToUpper s = map toUpperC s"
  by (induction s) (auto simp: asciiOnly_def ToUpper.simps dest: ascii_not_lead)

lemma ToLower_ascii: "asciiOnly s \<Longrightarrow> ToLower s = map toLowerC s"
  by (induction s) (auto simp: asciiOnly_def ToLower.simps dest: ascii_not_lead)

lemma set_TrimLeftSpace: "set (TrimLeftSpace s) \<subseteq> set s"
proof (induction s rule: TrimLeftSpace.induct)
  case (1 s)
  show ?case
  proof (cases "spaceAtStart s = 0")
    case True
    then show ?thesis by (subst TrimLeftSpace.simps) simp
  next
    case False
    then have "set (TrimLeftSpace (drop (spaceAtStart s) s)) \<subseteq> set (drop (spaceAtStart s) s)"
      using "1.IH" by simp
    then show ?thesis
      using False by (subst TrimLeftSpace.simps) (auto dest: in_set_dropD)
  qed
qed

lemma set_TrimRightSpace: "set (TrimRightSpace s) \<subseteq> set s"
proof (induction s rule: TrimRightSpace.induct)
  case (1 s)
  show ?case
  proof (cases "spaceAtEnd s = 0")
    case True
    then show ?thesis by (subst TrimRightSpace.simps) simp
  next
    case False
    then have "set (TrimRightSpace (take (length s - spaceAtEnd s) s))
               \<subseteq> set (take (length s - spaceAtEnd s) s)"
      using "1.IH" by simp
    then show ?thesis
      using False by (subst TrimRightSpace.simps) (auto dest: in_set_takeD)
  qed
qed

lemma asciiOnly_TrimSpace: "asciiOnly s \<Longrightarrow> asciiOnly (TrimSpace s)"
  using set_TrimLeftSpace [of s] set_TrimRightSpace [of "TrimLeftSpace s"]
  by (auto simp: asciiOnly_def TrimSpace_def list_all_iff)

lemma asciiOnly_take: "asciiOnly s \<Longrightarrow> asciiOnly (take n s)"
  by (auto simp: asciiOnly_def list_all_iff dest: in_set_takeD)

lemma upper_eq_iff_fold:
  assumes "map toUpperC kw = kw"
  shows "map toUpperC u = kw \<longleftrightarrow> map toLowerC u = map toLowerC kw"
proof
  assume "map toUpperC u = kw"
  then have "map toLowerC kw = map toLowerC (map toUpperC u)" by simp
  also have "\<dots> = map toLowerC u" by (simp add: toLowerC_o_toUpperC)
  finally show "map toLowerC u = map toLowerC kw" by simp
next
  assume "map toLowerC u = map toLowerC kw"
  then have "map toUpperC (map toLowerC u) = map toUpperC (map toLowerC kw)" by simp
  then have "map toUpperC u = map toUpperC kw" by (simp add: toUpperC_o_toLowerC)
  with assms show "map toUpperC u = kw" by simp
qed

lemma queryKeywords_upper: "kw \<in> set queryKeywords \<Longrightarrow> map toUpperC kw = kw \<and> asciiOnly kw"
  by (auto simp: queryKeywords_def asciiOnly_def toUpperC_def char_of_def bit_Suc_0_iff)

lemma HasPrefix_upper_iff:
  assumes "asciiOnly t" "kw \<in> set queryKeywords"
  shows "HasPrefix (ToUpper t) kw \<longleftrightarrow> beginsWithFold t kw"
proof -
  have k: "map toUpperC kw = kw" "ToLower kw = map toLowerC kw"
    using queryKeywords_upper [OF assms(2)] by (simp_all add: ToLower_ascii)
  have "take (length kw) (ToUpper t) = map toUpperC (take (length kw) t)"
    using assms(1) by (simp add: ToUpper_ascii take_map)
  moreover have "ToLower (take (length kw) t) = map toLowerC (take (length kw) t)"
    using assms(1) by (simp add: ToLower_ascii asciiOnly_take)
  ultimately show ?thesis
    using upper_eq_iff_fold [OF k(1), of "take (length kw) t"] assms(1)
    by (simp add: HasPrefix_def beginsWithFold_def k(2) ToUpper_ascii)
qed

text \<open>
  C7, as the code has it. \<open>isQuery\<close> holds of a statement exactly when the statement,
  trimmed and put in upper case by \<open>strings.ToUpper\<close>, begins with one of SELECT, SHOW,
  WITH, TABLE, VALUES, EXPLAIN, ANALYZE. For a statement of ASCII bytes this is exactly
  when the statement, trimmed, begins with one of the keywords, letter case ignored; every
  other statement of ASCII bytes is command-shaped (\<open>isQuery\<close> is false).
\<close>

theorem C7_isQuery_ascii:
  "isQuery s = list_ex (HasPrefix (ToUpper (TrimSpace s))) queryKeywords
   \<and> (asciiOnly s \<longrightarrow> isQuery s = queryShaped s)"
proof -
  have a: "isQuery s = list_ex (HasPrefix (ToUpper (TrimSpace s))) queryKeywords"
    by (simp add: isQuery_def queryKeywords_def Let_def)
  have "list_ex (HasPrefix (ToUpper (TrimSpace s))) queryKeywords
        = list_ex (beginsWithFold (TrimSpace s)) queryKeywords" if "asciiOnly s"
    unfolding list_ex_iff
    using HasPrefix_upper_iff [OF asciiOnly_TrimSpace [OF that]] by blast
  then show ?thesis
    using a by (simp add: queryShaped_def)
qed

theorem C7_isQuery_ascii_witness:
  "asciiOnly ''select 1'' \<and> isQuery ''select 1''
   \<and> asciiOnly ''  SHOW ALL'' \<and> isQuery ''  SHOW ALL''
   \<and> asciiOnly ''with x as (select 1) select * from x''
   \<and> isQuery ''with x as (select 1) select * from x''
   \<and> asciiOnly ''insert into t values (1)'' \<and> \<not> isQuery ''insert into t values (1)''
   \<and> asciiOnly ''vacuum t'' \<and> \<not> isQuery ''vacuum t''"
proof -
  have a: "asciiOnly ''select 1''" "asciiOnly ''  SHOW ALL''"
    "asciiOnly ''with x as (select 1) select * from x''"
    "asciiOnly ''insert into t values (1)''" "asciiOnly ''vacuum t''"
    by (simp_all add: asciiOnly_def)
  have q: "queryShaped ''select 1''" "queryShaped ''  SHOW ALL''"
    "queryShaped ''with x as (select 1) select * from x''"
    "\<not> queryShaped ''insert into t values (1)''" "\<not> queryShaped ''vacuum t''"
    by (simp_all add: queryShaped_def queryKeywords_def beginsWithFold_def str_eval)
  show ?thesis
    using a q
      C7_isQuery_ascii [of "''select 1''"] C7_isQuery_ascii [of "''  SHOW ALL''"]
      C7_isQuery_ascii [of "''with x as (select 1) select * from x''"]
      C7_isQuery_ascii [of "''insert into t values (1)''"] C7_isQuery_ascii [of "''vacuum t''"]
    by blast
qed

text \<open>
  C7, as the claim words it, fails outside ASCII. The statement below begins with w,
  dotless i, t, h; its lower-case form does not begin with \<open>with\<close>, so it does not begin
  with WITH in any letter case, yet its upper-case form does and \<open>isQuery\<close> holds.
\<close>

theorem C7_dotless_i_counterexample:
  "isQuery dotlessWith \<and> \<not> queryShaped dotlessWith
   \<and> ToUpper dotlessWith = ''WITH X AS (SELECT 1) SELECT * FROM X''
   \<and> ToLower dotlessWith = dotlessWith"
  by (simp add: isQuery_def queryShaped_def queryKeywords_def beginsWithFold_def dotlessWith_def
      str_eval)

section \<open>Transaction keywords\<close>

text \<open>
  C1. The code sets \<open>inTransaction\<close> before it calls the backend. With a backend that
  refuses the call, \<open>BEGIN;\<close> leaves the flag set in a session that had it clear, and
  \<open>commit\<close> and \<open>ROLLBACK\<close> leave it clear in a session that had it set; each writes
  the error line.
\<close>

theorem C1_flag_changes_on_backend_error:
  "inTransaction demo = False
   \<and> executeSQL refusing demo ''BEGIN;''
       = Returned (demo\<lparr>inTransaction := True,
                         term_out := ''ERROR: connection refused'' @ [nl],
                         trace := [EvExec 1 30 ''BEGIN'']\<rparr>)
   \<and> executeSQL refusing (demo\<lparr>inTransaction := True\<rparr>) ''commit''
       = Returned (demo\<lparr>inTransaction := False,
                         term_out := ''ERROR: connection refused'' @ [nl],
                         trace := [EvExec 1 30 ''COMMIT'']\<rparr>)
   \<and> executeSQL refusing (demo\<lparr>inTransaction := True\<rparr>) ''ROLLBACK''
       = Returned (demo\<lparr>inTransaction := False,
                         term_out := ''ERROR: connection refused'' @ [nl],
                         trace := [EvExec 1 30 ''ROLLBACK'']\<rparr>)"
  by (simp add: executeSQL_def execKeyword_def str_eval refusing_def demo_eq Let_def)

lemma executeSQL_BEGIN_error:
  "db c = Some h \<Longrightarrow> exec_reply E (trace c) h 30 ''BEGIN'' = Inl err \<Longrightarrow>
   executeSQL E c ''BEGIN''
     = Returned (c\<lparr>inTransaction := True, trace := trace c @ [EvExec h 30 ''BEGIN''],
                    term_out := term_out c @ ''ERROR: '' @ err @ [nl]\<rparr>)"
  by (simp add: executeSQL_def execKeyword_def str_eval Let_def)

section \<open>End of input\<close>

lemma readMultiLine_exhausted: "input d = [] \<Longrightarrow> readMultiLine d = ([], d)"
  by (simp add: readMultiLine_def)

lemma Start_exhausted: "input d = [] \<Longrightarrow> Start n E d = None"
proof (induction n arbitrary: d)
  case 0
  show ?case by simp
next
  case (Suc n)
  have "readMultiLine (d\<lparr>prompt := getPrompt d\<rparr>) = ([], d\<lparr>prompt := getPrompt d\<rparr>)"
    using Suc.prems by (simp add: readMultiLine_exhausted)
  then have "Start (Suc n) E d = Start n E (d\<lparr>prompt := getPrompt d\<rparr>)"
    by simp
  also have "\<dots> = None"
    using Suc.prems by (intro Suc.IH) simp
  finally show ?case .
qed

text \<open>
  C2. When the line source reports the end of input, \<open>Start\<close> does not return: it
  sets the prompt and reads again. On a source that has nothing left it returns within
  no bound on the number of iterations. An exit command is what makes it return.
\<close>

theorem C2_Start_reads_on_after_EOF:
  "Start (Suc n) E (c\<lparr>input := Inl EOF # rest\<rparr>)
     = Start n E (c\<lparr>input := rest, prompt := getPrompt c\<rparr>)
   \<and> Start n E (c\<lparr>input := []\<rparr>) = None"
proof -
  have "readMultiLine (c\<lparr>input := Inl EOF # rest, prompt := getPrompt (c\<lparr>input := Inl EOF # rest\<rparr>)\<rparr>)
        = ([], c\<lparr>input := rest, prompt := getPrompt c\<rparr>)"
    by (simp add: readMultiLine_def getPrompt_def)
  then have a: "Start (Suc n) E (c\<lparr>input := Inl EOF # rest\<rparr>) = Start n E (c\<lparr>input := rest, prompt := getPrompt c\<rparr>)"
    by simp
  show ?thesis using a Start_exhausted [of "c\<lparr>input := []\<rparr>" n E] by simp
qed

lemma handle_quit: "handlePsqlCommand E d (bs # ''q'') = Returned (True, d\<lparr>term_out := term_out d @ [nl]\<rparr>)"
  by (simp add: handlePsqlCommand_def str_eval Let_def)

lemma Start_quit: "Start (Suc n) E (c\<lparr>input := Inr (bs # ''q'') # rest\<rparr>) = Some (Returned (c\<lparr>input := rest, prompt := getPrompt c, term_out := term_out c @ [nl]\<rparr>))"
proof -
  have t: "TrimSpace (bs # ''q'') = bs # ''q''" by (simp add: str_eval)
  have r: "readMultiLine (c\<lparr>input := Inr (bs # ''q'') # rest, prompt := getPrompt (c\<lparr>input := Inr (bs # ''q'') # rest\<rparr>)\<rparr>)
        = (bs # ''q'', c\<lparr>input := rest, prompt := getPrompt c\<rparr>)"
    by (simp add: readMultiLine_def t HasPrefix_def getPrompt_def)
  show ?thesis
    by (simp add: r t handle_quit)
qed

section \<open>Switching the database\<close>

lemma ToLower_bs: "ToLower (bs # s) = bs # ToLower s"
  by (simp add: ToLower.simps toLowerC_def bs_def)

lemma dispatch_switch:
  assumes sw: "HasPrefix (TrimSpace cmd0) (bs # ''c '') \<or> HasPrefix (TrimSpace cmd0) (bs # ''connect '')"
  shows "handlePsqlCommand E c cmd0 =
     (case Fields (TrimSpace cmd0) of
        p0 # p1 # ps \<Rightarrow> Returned (True, connectToDatabase E c p1)
      | _ \<Rightarrow> Returned (True, c\<lparr>term_out := term_out c @ ''ERROR: database name required'' @ [nl]\<rparr>))"
proof -
  obtain r where r: "TrimSpace cmd0 = bs # CHR ''c'' # r"
    using sw by (cases "TrimSpace cmd0"; cases "tl (TrimSpace cmd0)") (auto simp: HasPrefix_def)
  have ne: "bs \<noteq> CHR ''e''" "bs \<noteq> CHR ''q''" "bs \<noteq> CHR ''h''"
    by (simp_all add: bs_def)
  show ?thesis
    using sw unfolding handlePsqlCommand_def Let_def r
    by (simp add: ToLower_bs ne HasPrefix_def del: One_nat_def)
qed

text \<open>
  C5. A command is a database switch when, trimmed, it starts with \<open>\c \<close> or
  \<open>\connect \<close>; the name is its second field. Suppose \<open>sql.Open\<close> yields the new
  connection. If its ping fails, the new connection is closed, the error line is written,
  and the session keeps its connection and its database name (every field but the
  terminal output and the list of backend calls is as before, and no call closes the old
  connection). If the ping succeeds, the old connection, when there is one, is closed,
  the new connection is the session's connection and the database name is the name
  asked for.
\<close>

theorem C5_database_switch:
  assumes sw: "HasPrefix (TrimSpace cmd0) (bs # ''c '') \<or> HasPrefix (TrimSpace cmd0) (bs # ''connect '')"
    and f: "Fields (TrimSpace cmd0) = p0 # dbName # ps"
    and o: "open_reply E (trace c) (switchDSN (config c) dbName) = Inr newDB"
  shows "(ping_reply E (trace c @ [EvOpen (switchDSN (config c) dbName)]) newDB = Some err \<longrightarrow>
           handlePsqlCommand E c cmd0 =
             Returned (True,
               c\<lparr>trace := trace c @ [EvOpen (switchDSN (config c) dbName), EvPing newDB, EvClose newDB],
                  term_out := term_out c @ ''ERROR: database '' @ [dq] @ dbName @ [dq]
                              @ '' does not exist'' @ [nl]\<rparr>))
       \<and> (ping_reply E (trace c @ [EvOpen (switchDSN (config c) dbName)]) newDB = None \<longrightarrow>
           handlePsqlCommand E c cmd0 =
             Returned (True,
               c\<lparr>trace := trace c @ [EvOpen (switchDSN (config c) dbName), EvPing newDB]
                            @ (case db c of None \<Rightarrow> [] | Some old \<Rightarrow> [EvClose old]),
                  db := Some newDB,
                  database := dbName,
                  term_out := term_out c @ ''You are now connected to database '' @ [dq] @ dbName
                              @ [dq] @ '' as user '' @ [dq] @ Username (config c) @ [dq] @ ''.'' @ [nl]\<rparr>))"
  using o by (simp add: dispatch_switch [OF sw] f connectToDatabase_def Let_def)

lemma switch_cmd_eval: "TrimSpace (bs # ''c salesdb'') = bs # ''c salesdb''" "Fields (bs # ''c salesdb'') = [bs # ''c'', ''salesdb'']"
  by (simp_all add: str_eval)

theorem C5_database_switch_witness:
  "(HasPrefix (TrimSpace (bs # ''c salesdb'')) (bs # ''c '') \<or> HasPrefix (TrimSpace (bs # ''c salesdb'')) (bs # ''connect ''))
   \<and> Fields (TrimSpace (bs # ''c salesdb'')) = [bs # ''c'', ''salesdb'']
   \<and> open_reply refusing (trace demo) (switchDSN (config demo) ''salesdb'') = Inr 2
   \<and> ping_reply refusing (trace demo @ [EvOpen (switchDSN (config demo) ''salesdb'')]) 2 = Some ''connection refused''
   \<and> handlePsqlCommand refusing demo (bs # ''c salesdb'') =
       Returned (True, demo\<lparr>trace := [EvOpen (switchDSN demoConfig ''salesdb''), EvPing 2, EvClose 2],
                           term_out := ''ERROR: database '' @ [dq] @ ''salesdb'' @ [dq] @ '' does not exist'' @ [nl]\<rparr>)
   \<and> open_reply accepting (trace demo) (switchDSN (config demo) ''salesdb'') = Inr 2
   \<and> ping_reply accepting (trace demo @ [EvOpen (switchDSN (config demo) ''salesdb'')]) 2 = None
   \<and> handlePsqlCommand accepting demo (bs # ''c salesdb'') =
       Returned (True, demo\<lparr>trace := [EvOpen (switchDSN demoConfig ''salesdb''), EvPing 2, EvClose 1],
                           db := Some 2, database := ''salesdb'',
                           term_out := ''You are now connected to database '' @ [dq] @ ''salesdb'' @ [dq]
                                       @ '' as user '' @ [dq] @ ''postgres'' @ [dq] @ ''.'' @ [nl]\<rparr>)"
proof -
  have sw: "HasPrefix (TrimSpace (bs # ''c salesdb'')) (bs # ''c '') \<or> HasPrefix (TrimSpace (bs # ''c salesdb'')) (bs # ''connect '')"
    unfolding switch_cmd_eval by (simp add: HasPrefix_def)
  have f: "Fields (TrimSpace (bs # ''c salesdb'')) = [bs # ''c'', ''salesdb'']"
    unfolding switch_cmd_eval by simp
  have o1: "open_reply refusing (trace demo) (switchDSN (config demo) ''salesdb'') = Inr 2"
    by (simp add: refusing_def)
  have o2: "open_reply accepting (trace demo) (switchDSN (config demo) ''salesdb'') = Inr 2"
    by (simp add: accepting_def)
  have p1: "ping_reply refusing (trace demo @ [EvOpen (switchDSN (config demo) ''salesdb'')]) 2 = Some ''connection refused''"
    by (simp add: refusing_def)
  have p2: "ping_reply accepting (trace demo @ [EvOpen (switchDSN (config demo) ''salesdb'')]) 2 = None"
    by (simp add: accepting_def)
  have r1: "handlePsqlCommand refusing demo (bs # ''c salesdb'') =
             Returned (True,
               demo\<lparr>trace := trace demo @ [EvOpen (switchDSN (config demo) ''salesdb''), EvPing 2, EvClose 2],
                  term_out := term_out demo @ ''ERROR: database '' @ [dq] @ ''salesdb'' @ [dq]
                              @ '' does not exist'' @ [nl]\<rparr>)"
    using C5_database_switch [OF sw f o1, of "''connection refused''"] p1 by blast
  have r2: "handlePsqlCommand accepting demo (bs # ''c salesdb'') =
             Returned (True,
               demo\<lparr>trace := trace demo @ [EvOpen (switchDSN (config demo) ''salesdb''), EvPing 2]
                            @ (case db demo of None \<Rightarrow> [] | Some old \<Rightarrow> [EvClose old]),
                  db := Some 2,
                  database := ''salesdb'',
                  term_out := term_out demo @ ''You are now connected to database '' @ [dq] @ ''salesdb''
                              @ [dq] @ '' as user '' @ [dq] @ Username (config demo) @ [dq] @ ''.'' @ [nl]\<rparr>)"
    using C5_database_switch [OF sw f o2, of "''connection refused''"] p2 by blast
  have d: "trace demo = []" "config demo = demoConfig" "db demo = Some 1" "term_out demo = []"
    "Username demoConfig = ''postgres''"
    by (simp_all add: demo_eq demoConfig_def)
  show ?thesis
    using sw f o1 o2 p1 p2 unfolding r1 r2 d by simp
qed

lemma HasSuffix_append: "HasSuffix (a @ p) p"
  by (simp add: HasSuffix_def)

lemma HasPrefix_append: "HasPrefix (p @ r) p"
  by (simp add: HasPrefix_def)

text \<open>
  C10. The DSN that a database switch opens ends with \<open>sslmode=disable
  connect_timeout=10\<close>; it is the same whatever the SSL mode, the connect timeout and the
  other optional parameters of the configuration are, and it is the one DSN the switch
  opens. The DSN of \<open>Connect\<close> carries the configured SSL mode and connect timeout.
\<close>

theorem C10_switch_dsn_fixed:
  "HasSuffix (switchDSN cfg dbName) '' sslmode=disable connect_timeout=10''
   \<and> switchDSN (cfg\<lparr>SSLMode := m, ConnectTimeout := t, StatementTimeout := st, MaxOpenConns := a, MaxIdleConns := b,
        ConnMaxLifetime := l, ApplicationName := an, SearchPath := sp, TimeZone := tz, CustomParams := cp, Database := d\<rparr>) dbName = switchDSN cfg dbName
   \<and> opened (trace (connectToDatabase E c dbName)) = opened (trace c) @ [switchDSN (config c) dbName]
   \<and> HasPrefix (Connect_dsn cfg)
        (''host='' @ Host cfg @ '' port='' @ itoa (Port cfg) @ '' user='' @ Username cfg
         @ '' password='' @ Password cfg @ '' dbname='' @ Database cfg
         @ '' sslmode='' @ SSLMode cfg @ '' connect_timeout='' @ itoa (truncDiv (ConnectTimeout cfg) second))"
proof -
  have "switchDSN cfg dbName =
          (''host='' @ Host cfg @ '' port='' @ itoa (Port cfg) @ '' user='' @ Username cfg
           @ '' password='' @ Password cfg @ '' dbname='' @ dbName)
          @ '' sslmode=disable connect_timeout=10''"
    by (simp add: switchDSN_def)
  then have a: "HasSuffix (switchDSN cfg dbName) '' sslmode=disable connect_timeout=10''"
    by (simp only: HasSuffix_append)
  have b: "switchDSN (cfg\<lparr>SSLMode := m, ConnectTimeout := t, StatementTimeout := st, MaxOpenConns := a, MaxIdleConns := b,
        ConnMaxLifetime := l, ApplicationName := an, SearchPath := sp, TimeZone := tz, CustomParams := cp, Database := d\<rparr>) dbName = switchDSN cfg dbName"
    by (simp add: switchDSN_def)
  have c: "opened (trace (connectToDatabase E c dbName)) = opened (trace c) @ [switchDSN (config c) dbName]"
    by (simp add: connectToDatabase_def opened_def Let_def split: sum.splits option.splits)
  have d: "HasPrefix (Connect_dsn cfg)
        (''host='' @ Host cfg @ '' port='' @ itoa (Port cfg) @ '' user='' @ Username cfg
         @ '' password='' @ Password cfg @ '' dbname='' @ Database cfg
         @ '' sslmode='' @ SSLMode cfg @ '' connect_timeout='' @ itoa (truncDiv (ConnectTimeout cfg) second))"
  proof -
    have "\<exists>r. Connect_dsn cfg =
        (''host='' @ Host cfg @ '' port='' @ itoa (Port cfg) @ '' user='' @ Username cfg
         @ '' password='' @ Password cfg @ '' dbname='' @ Database cfg
         @ '' sslmode='' @ SSLMode cfg @ '' connect_timeout='' @ itoa (truncDiv (ConnectTimeout cfg) second)) @ r"
      by (simp add: Connect_dsn_def Let_def)
    then show ?thesis
      by (auto simp only: HasPrefix_append)
  qed
  show ?thesis using a b c d by blast
qed

theorem C10_switch_dsn_fixed_witness:
  "switchDSN demoConfig ''salesdb'' = ''host=localhost port=5432 user=postgres password=password dbname=salesdb sslmode=disable connect_timeout=10''
  \<and> Connect_dsn demoConfig = ''host=localhost port=5432 user=postgres password=password dbname=testdb sslmode=require connect_timeout=15 application_name=psql''
  \<and> HasSuffix (switchDSN demoConfig ''salesdb'') '' sslmode=disable connect_timeout=10''
  \<and> opened (trace (connectToDatabase accepting demo ''salesdb'')) = [switchDSN demoConfig ''salesdb'']"
proof -
  have p: "itoa 5432 = ''5432''" "itoa (truncDiv (15 * second) second) = ''15''"
    by (simp_all add: fmt_eval truncDiv_def second_def char_of_def bit_Suc_0_iff)
  have a: "switchDSN demoConfig ''salesdb'' = ''host=localhost port=5432 user=postgres password=password dbname=salesdb sslmode=disable connect_timeout=10''"
    by (simp add: switchDSN_def demoConfig_def p)
  have b: "Connect_dsn demoConfig = ''host=localhost port=5432 user=postgres password=password dbname=testdb sslmode=require connect_timeout=15 application_name=psql''"
    by (simp add: Connect_dsn_def demoConfig_def p Let_def)
  have d: "opened (trace demo) = []" "config demo = demoConfig" by (simp_all add: demo_eq opened_def)
  show ?thesis
    using C10_switch_dsn_fixed [of demoConfig "''salesdb''" _ _ _ _ _ _ _ _ _ _ _ accepting demo]
    by (simp only: a b d) simp
qed

section \<open>Table widths and the row cap\<close>

lemma headerWidth_eq: "headerWidth col = min 50 (max 4 (length col))"
  by (simp add: headerWidth_def Let_def)

lemma fitCell_eq: "w \<le> 50 \<Longrightarrow> fitCell w v = (min 50 (max w (length v)), specCell v)"
  by (auto simp: fitCell_def specCell_def)

lemma length_cellsOf: "length (cellsOf n r) = n"
  by (simp add: cellsOf_def scanRow_def)

lemma fitRow_eq:
  assumes "\<forall>w\<in>set ws. w \<le> 50" "length vs = length ws"
  shows "fitRow ws vs = (grow ws vs, map specCell vs)"
proof -
  have e: "fitCell w v = (min 50 (max w (length v)), specCell v)" if "(w, v) \<in> set (zip ws vs)" for w v
    using that assms(1) by (auto simp: fitCell_eq dest: set_zip_leftD)
  have "map (\<lambda>(w, v). fitCell w v) (zip ws vs)
        = map (\<lambda>(w, v). (min 50 (max w (length v)), specCell v)) (zip ws vs)"
    by (rule map_cong) (auto simp: e)
  then have "fitRow ws vs = (grow ws vs, map specCell (map snd (zip ws vs)))"
    by (simp add: fitRow_def Let_def grow_def case_prod_unfold comp_def)
  then show ?thesis
    using assms(2) by simp
qed

lemma grow_le: "\<forall>w\<in>set (grow ws vs). w \<le> 50"
  by (auto simp: grow_def)

lemma length_grow: "length vs = length ws \<Longrightarrow> length (grow ws vs) = length ws"
  by (simp add: grow_def)

lemma collectRows_eq:
  assumes "\<forall>w\<in>set ws. w \<le> 50"
  shows "collectRows maxR ws acc rows =
     (let k = min (length rows) (nat (max 1 (maxR - int (length acc))))
      in (fold (\<lambda>r ws. grow ws (cellsOf (length ws) r)) (take k rows) ws,
          acc @ map (\<lambda>r. map specCell (cellsOf (length ws) r)) (take k rows),
          drop k rows))"
  using assms
proof (induction rows arbitrary: ws acc)
  case Nil
  show ?case by simp
next
  case (Cons r rest)
  let ?ws' = "grow ws (cellsOf (length ws) r)"
  let ?acc' = "acc @ [map specCell (cellsOf (length ws) r)]"
  have fr: "fitRow ws (map formatValue (scanRow (length ws) r)) = (?ws', map specCell (cellsOf (length ws) r))"
    using fitRow_eq [OF Cons.prems, of "cellsOf (length ws) r"] by (simp add: length_cellsOf) (simp add: cellsOf_def)
  have len: "length ?ws' = length ws" by (simp add: length_grow length_cellsOf)
  show ?case
  proof (cases "int (length ?acc') \<ge> maxR")
    case True
    then have k: "min (length (r # rest)) (nat (max 1 (maxR - int (length acc)))) = 1" by auto
    show ?thesis unfolding Let_def k using True by (simp add: fr)
  next
    case False
    then have k: "min (length (r # rest)) (nat (max 1 (maxR - int (length acc))))
       = Suc (min (length rest) (nat (max 1 (maxR - int (length ?acc')))))" by auto
    have "collectRows maxR ws acc (r # rest) = collectRows maxR ?ws' ?acc' rest"
      using False by (simp add: fr)
    also have "\<dots> = (let k = min (length rest) (nat (max 1 (maxR - int (length ?acc'))))
      in (fold (\<lambda>r ws. grow ws (cellsOf (length ws) r)) (take k rest) ?ws',
          ?acc' @ map (\<lambda>r. map specCell (cellsOf (length ?ws') r)) (take k rest),
          drop k rest))"
      by (rule Cons.IH) (rule grow_le)
    finally show ?thesis unfolding Let_def k by (simp add: len)
  qed
qed












lemma replicate_numeral: "replicate (numeral k) x = x # replicate (pred_numeral k) x"
  by (simp add: numeral_eq_Suc)

lemma runeCount_ascii: "asciiOnly s \<Longrightarrow> runeCount s = length s"
proof (induction s)
  case Nil
  show ?case by (simp add: runeCount.simps)
next
  case (Cons c s)
  then have "runeLen (c # s) = 1" by (simp add: runeLen_def asciiOnly_def)
  then show ?case using Cons by (subst runeCount.simps) (simp add: asciiOnly_def)
qed

lemma padRight_ascii: "asciiOnly s \<Longrightarrow> padRight w s = s @ replicate (w - length s) (CHR '' '')"
  by (simp add: padRight_def runeCount_ascii)





subsection \<open>Two renderings\<close>

lemma displayTable_sample:
  "fst (displayTable accepting demo tableCols (take 2 tableRows))
   = demo\<lparr>term_out := '' id   | name '' @ [nl] @ ''-----+------'' @ [nl]
                        @ '' 1    | ab   '' @ [nl] @ '' 2    |      '' @ [nl]
                        @ ''(2 rows)'' @ [nl, nl]\<rparr>"
  by (simp add: displayTable_def tableText_def rowCountLine_def timingLine_def headerWidth_def
      fitRow_def fitCell_def scanRow_def tableCols_def tableRows_def demo_eq fmt_eval
      padRight_ascii asciiOnly_def
      char_of_def bit_Suc_0_iff Let_def replicate_numeral)

lemma displayExpanded_sample:
  "displayExpanded accepting (demo\<lparr>timingEnabled := True\<rparr>) tableCols (take 1 tableRows)
   = Returned (demo\<lparr>timingEnabled := True,
                     term_out := ''-[ RECORD 1 ]'' @ replicate 37 (CHR ''-'') @ [nl]
                                 @ ''id   | 1'' @ [nl] @ ''name | ab'' @ [nl]
                                 @ ''Time: 0.250 ms'' @ [nl, nl]\<rparr>, [])"
  by (simp add: displayExpanded_def recordText_def maxColLen_def timingLine_def scanRow_def
      tableCols_def tableRows_def demo_eq accepting_def fmt_eval padRight_ascii asciiOnly_def
      char_of_def bit_Suc_0_iff Let_def replicate_numeral)

subsection \<open>The cap is set by the constructor and never assigned again\<close>

lemma execKeyword_maxRows: "execKeyword E c kw = Returned c' \<Longrightarrow> maxRows c' = maxRows c"
  by (auto simp: execKeyword_def Let_def split: option.splits sum.splits)

lemma executeCommand_maxRows: "executeCommand E c q = Returned c' \<Longrightarrow> maxRows c' = maxRows c"
  by (auto simp: executeCommand_def printError_def Let_def split: option.splits sum.splits)

lemma executeQuery_maxRows: "executeQuery E c q = Returned c' \<Longrightarrow> maxRows c' = maxRows c"
  by (auto simp: executeQuery_def printError_def displayTable_def displayExpanded_def Let_def
      split: option.splits sum.splits prod.splits outcome.splits if_splits)

lemma executeSQL_maxRows: "executeSQL E c q = Returned c' \<Longrightarrow> maxRows c' = maxRows c"
  unfolding executeSQL_def Let_def
  by (auto split: if_splits dest: execKeyword_maxRows executeCommand_maxRows executeQuery_maxRows)

lemma connectToDatabase_maxRows: "maxRows (connectToDatabase E c n) = maxRows c"
  by (simp add: connectToDatabase_def Let_def split: sum.splits option.splits)

lemma describeTable_maxRows: "describeTable E c t = Returned c' \<Longrightarrow> maxRows c' = maxRows c"
  by (auto simp: describeTable_def Let_def split: option.splits sum.splits if_splits)

lemma showSQLHelp_maxRows: "showSQLHelp c cmd = Returned c' \<Longrightarrow> maxRows c' = maxRows c"
  by (auto simp: showSQLHelp_def split: list.splits)

lemma handled_maxRows:
  "handled r = Returned (b, c') \<Longrightarrow> \<exists>d. r = Returned d \<and> c' = d"
  by (auto simp: handled_def split: outcome.splits)

lemma handlePsqlCommand_maxRows:
  "handlePsqlCommand E c cmd = Returned (b, c') \<Longrightarrow> maxRows c' = maxRows c"
  unfolding handlePsqlCommand_def Let_def
  by (auto split: if_splits list.splits
      simp: showHelp_def showConnectionInfo_def connectToDatabase_maxRows
      dest!: handled_maxRows
      dest: executeSQL_maxRows describeTable_maxRows showSQLHelp_maxRows)

lemma readMultiLine_maxRows: "readMultiLine c = (u, c') \<Longrightarrow> maxRows c' = maxRows c"
  by (auto simp: readMultiLine_def split: prod.splits)

lemma Start_maxRows: "Start n E c = Some (Returned c') \<Longrightarrow> maxRows c' = maxRows c"
proof (induction n arbitrary: c)
  case 0
  then show ?case by simp
next
  case (Suc n)
  obtain u c1 where r: "readMultiLine (c\<lparr>prompt := getPrompt c\<rparr>) = (u, c1)" by fastforce
  have m1: "maxRows c1 = maxRows c" using readMultiLine_maxRows [OF r] by simp
  show ?case
  proof (cases "u = []")
    case True
    then show ?thesis using Suc r m1 by simp
  next
    case False
    show ?thesis
    proof (cases "handlePsqlCommand E c1 (TrimSpace u)")
      case Panicked
      then show ?thesis using Suc.prems r False by simp
    next
      case (Returned bc)
      obtain b c2 where bc: "bc = (b, c2)" by fastforce
      have m2: "maxRows c2 = maxRows c" using handlePsqlCommand_maxRows Returned bc m1 by fastforce
      show ?thesis
      proof (cases b)
        case True
        then show ?thesis using Suc.prems Suc.IH [of c2] r False Returned bc m2
          by (auto simp: Let_def split: if_splits)
      next
        case b: False
        show ?thesis
        proof (cases "executeSQL E c2 (TrimSpace u)")
          case Panicked
          then show ?thesis using Suc.prems r False Returned bc b by (simp add: Let_def)
        next
          case (Returned c3)
          have "maxRows c3 = maxRows c" using executeSQL_maxRows [OF Returned] m2 by simp
          then show ?thesis using Suc.prems Suc.IH [of c3] r False \<open>handlePsqlCommand E c1 (TrimSpace u) = Returned bc\<close> bc b Returned
            by (simp add: Let_def)
        qed
      qed
    qed
  qed
qed

lemma NewCLIWithConfig_maxRows: "maxRows (NewCLIWithConfig src cfg) = 1000"
  by (simp add: NewCLIWithConfig_def Let_def)

subsection \<open>The cap\<close>

lemma displayTable_capped:
  assumes "1 \<le> maxRows c"
  shows "displayTable E c cols rows
         = (fst (displayTable E c cols (take (nat (maxRows c)) rows)), drop (nat (maxRows c)) rows)"
    and "length (fst (snd (collectRows (maxRows c) (map headerWidth cols) [] rows)))
         = min (length rows) (nat (maxRows c))"
proof -
  let ?m = "nat (maxRows c)"
  have le: "\<forall>w\<in>set (map headerWidth cols). w \<le> 50"
    by (simp add: headerWidth_eq)
  have k: "min (length rs) (nat (max 1 (maxRows c - int (length ([]::string list list))))) = min (length rs) ?m" for rs :: "sqlval list list"
    using assms by (simp add: max_def)
  have a: "collectRows (maxRows c) (map headerWidth cols) [] rs =
      (fold (\<lambda>r ws. grow ws (cellsOf (length ws) r)) (take (min (length rs) ?m) rs) (map headerWidth cols),
       map (\<lambda>r. map specCell (cellsOf (length cols) r)) (take (min (length rs) ?m) rs),
       drop (min (length rs) ?m) rs)" for rs
    using collectRows_eq [OF le, of "maxRows c" "[]" rs] unfolding k Let_def by simp
  have t: "take (min (length (take ?m rows)) ?m) (take ?m rows) = take (min (length rows) ?m) rows"
    by (simp add: min_def)
  show "displayTable E c cols rows
         = (fst (displayTable E c cols (take ?m rows)), drop ?m rows)"
    unfolding displayTable_def a t by (simp add: min_def)
  show "length (fst (snd (collectRows (maxRows c) (map headerWidth cols) [] rows))) = min (length rows) ?m"
    unfolding a by (simp add: min_def)
qed

lemma natDigits_length: "n < 10 ^ k \<Longrightarrow> length (natDigits n) \<le> max 1 k"
proof (induction n arbitrary: k rule: natDigits.induct)
  case (1 n)
  show ?case
  proof (cases "n < 10")
    case True
    then show ?thesis by (simp add: natDigits.simps)
  next
    case False
    then obtain j where j: "k = Suc j" using "1.prems" by (cases k) auto
    have "n div 10 < 10 ^ j" using "1.prems" j by (simp add: less_mult_imp_div_less mult.commute)
    then have "length (natDigits (n div 10)) \<le> max 1 j" using "1.IH" False by simp
    moreover have "j \<ge> 1" using False "1.prems" j by (cases j) auto
    ultimately show ?thesis using False j by (subst natDigits.simps) simp
  qed
qed

lemma title_fits:
  assumes "0 \<le> n" "n < 10 ^ 38"
  shows "\<not> 50 < length (''-[ RECORD '' @ itoa n @ '' ]'')"
proof -
  have "nat n < 10 ^ 38" using assms by (simp add: nat_less_iff)
  then have "length (natDigits (nat n)) \<le> 38" using natDigits_length [of "nat n" 38] by simp
  then show ?thesis using assms by (simp add: itoa_def)
qed

lemma expandedLoop_capped:
  assumes "0 \<le> n" "n + 1 < 10 ^ 38" "maxR < 10 ^ 38"
  shows "\<exists>out'. expandedLoop maxR cols out n rows
                   = Returned (out', n + int (min (length rows) (nat (max 1 (maxR - n)))),
                               drop (min (length rows) (nat (max 1 (maxR - n)))) rows)
               \<and> expandedLoop maxR cols out n (take (min (length rows) (nat (max 1 (maxR - n)))) rows)
                   = Returned (out', n + int (min (length rows) (nat (max 1 (maxR - n)))), [])"
  using assms
proof (induction rows arbitrary: out n)
  case Nil
  show ?case by simp
next
  case (Cons r rest)
  let ?title = "''-[ RECORD '' @ itoa (n + 1) @ '' ]''"
  let ?out' = "out @ ?title @ replicate (50 - length ?title) (CHR ''-'') @ [nl] @ recordText cols (scanRow (length cols) r)"
  have fits: "\<not> 50 < length ?title"
    using Cons.prems by (intro title_fits) simp_all
  show ?case
  proof (cases "n + 1 \<ge> maxR")
    case True
    then have k: "min (length (r # rest)) (nat (max 1 (maxR - n))) = 1" by auto
    show ?thesis unfolding k using True fits by (simp add: Let_def)
  next
    case False
    then have k: "min (length (r # rest)) (nat (max 1 (maxR - n)))
                  = Suc (min (length rest) (nat (max 1 (maxR - (n + 1)))))" by auto
    have step: "expandedLoop maxR cols out n (r # rs) = expandedLoop maxR cols ?out' (n + 1) rs" for rs
      using False fits by (simp add: Let_def)
    obtain out'' where
      "expandedLoop maxR cols ?out' (n + 1) rest
         = Returned (out'', (n + 1) + int (min (length rest) (nat (max 1 (maxR - (n + 1))))),
                     drop (min (length rest) (nat (max 1 (maxR - (n + 1))))) rest)"
      "expandedLoop maxR cols ?out' (n + 1) (take (min (length rest) (nat (max 1 (maxR - (n + 1))))) rest)
         = Returned (out'', (n + 1) + int (min (length rest) (nat (max 1 (maxR - (n + 1))))), [])"
      using Cons.IH [of "n + 1" ?out'] Cons.prems False by auto
    then show ?thesis unfolding k by (simp add: step del: expandedLoop.simps)
  qed
qed

text \<open>
  C8. With a cap of at least one row (the constructor sets 1000, and no operation
  changes it; a Go \<open>int\<close> is below \<open>2^63\<close>): \<open>displayTable\<close> writes what it writes for
  the first \<open>maxRows\<close> rows of the stream alone and leaves the rows after them unread,
  and it collects \<open>min (length rows) maxRows\<close> rows; \<open>displayExpanded\<close> returns, writes
  what it writes for the first \<open>maxRows\<close> rows alone and leaves the rest unread, and its
  record count is \<open>min (length rows) maxRows\<close>.
\<close>

theorem C8_row_cap:
  assumes "1 \<le> maxRows c" "maxRows c < 2 ^ 63"
  shows "displayTable E c cols rows
           = (fst (displayTable E c cols (take (nat (maxRows c)) rows)), drop (nat (maxRows c)) rows)
       \<and> length (fst (snd (collectRows (maxRows c) (map headerWidth cols) [] rows)))
           = min (length rows) (nat (maxRows c))
       \<and> (\<exists>c'. displayExpanded E c cols (take (nat (maxRows c)) rows) = Returned (c', [])
              \<and> displayExpanded E c cols rows = Returned (c', drop (nat (maxRows c)) rows))
       \<and> (\<exists>out. expandedLoop (maxRows c) cols [] 0 rows
                   = Returned (out, int (min (length rows) (nat (maxRows c))), drop (nat (maxRows c)) rows))"
proof -
  let ?m = "nat (maxRows c)"
  have b: "maxRows c < 10 ^ 38" using assms(2) by simp
  have k: "min (length rows) (nat (max 1 (maxRows c - 0))) = min (length rows) ?m"
    using assms(1) by (simp add: max_def)
  obtain out' where
    e1: "expandedLoop (maxRows c) cols [] 0 rows = Returned (out', int (min (length rows) ?m), drop (min (length rows) ?m) rows)"
    and e2: "expandedLoop (maxRows c) cols [] 0 (take (min (length rows) ?m) rows) = Returned (out', int (min (length rows) ?m), [])"
    using expandedLoop_capped [of 0 "maxRows c" cols "[]" rows] b unfolding k by auto
  have d: "drop (min (length rows) ?m) rows = drop ?m rows" by (simp add: min_def)
  have t: "take (min (length rows) ?m) rows = take ?m rows" by (simp add: min_def)
  have x: "displayExpanded E c cols (take ?m rows)
             = Returned (c\<lparr>term_out := term_out c @ out'
                  @ (if int (min (length rows) ?m) = 0 then ''(0 rows)'' @ [nl] else [])
                  @ timingLine E c @ [nl]\<rparr>, [])"
    using e2 unfolding t by (simp add: displayExpanded_def)
  have y: "displayExpanded E c cols rows
             = Returned (c\<lparr>term_out := term_out c @ out'
                  @ (if int (min (length rows) ?m) = 0 then ''(0 rows)'' @ [nl] else [])
                  @ timingLine E c @ [nl]\<rparr>, drop ?m rows)"
    using e1 unfolding d by (simp add: displayExpanded_def)
  show ?thesis
    using displayTable_capped(1) [OF assms(1), of E cols rows]
      displayTable_capped(2) [OF assms(1), of cols rows] x y e1
    unfolding d by blast
qed

theorem C8_row_cap_witness:
  "1 \<le> maxRows demo \<and> maxRows demo < 2 ^ 63
   \<and> displayTable accepting demo tableCols (replicate 1001 [VInt 7, VNil])
       = (fst (displayTable accepting demo tableCols (replicate 1000 [VInt 7, VNil])), [[VInt 7, VNil]])
   \<and> length (fst (snd (collectRows 1000 (map headerWidth tableCols) [] (replicate 1001 [VInt 7, VNil])))) = 1000
   \<and> (\<exists>c'. displayExpanded accepting demo tableCols (replicate 1000 [VInt 7, VNil]) = Returned (c', [])
          \<and> displayExpanded accepting demo tableCols (replicate 1001 [VInt 7, VNil]) = Returned (c', [[VInt 7, VNil]]))"
proof -
  have m: "maxRows demo = 1000" by (simp add: demo_eq)
  have h1: "1 \<le> maxRows demo" and h2: "maxRows demo < 2 ^ 63" by (simp_all add: m)
  have n: "nat (1000::int) = 1000" by simp
  have t: "take 1000 (replicate 1001 [VInt 7, VNil]) = replicate 1000 [VInt 7, VNil]"
    by simp
  have d: "drop 1000 (replicate 1001 [VInt 7, VNil]) = [[VInt 7, VNil]]"
    by simp
  have l: "min (length (replicate 1001 [VInt 7, VNil])) 1000 = 1000" by simp
  show ?thesis
    using h1 h2 C8_row_cap [OF h1 h2, of accepting tableCols "replicate 1001 [VInt 7, VNil]"]
    unfolding m n t d l by blast
qed

end
